theory Spec2Isabelle
  imports Complex_Main
begin

section \<open>Financial analytics and scoring engine\<close>

text \<open>
  A shallow embedding of the scoring engine of the Financial Agent repository:
  the models of \<^verbatim>\<open>app/models/__init__.py\<close>, the helpers of \<^verbatim>\<open>app/core/utils.py\<close>
  and the services under \<^verbatim>\<open>app/services\<close>.

  Python's \<^verbatim>\<open>float\<close> is modelled by \<^typ>\<open>real\<close>: every statement below is about the
  arithmetic the code writes down, not about IEEE rounding. An \<^verbatim>\<open>Optional[float]\<close>
  is a \<^typ>\<open>real option\<close>, a \<^verbatim>\<open>str\<close> a \<^typ>\<open>string\<close>, and an exception is the left
  summand of a result.
\<close>

subsection \<open>Exceptions and Python built-ins\<close>

datatype py_error = StatisticsError | IndexError | ValueError | ValidationError

text \<open>\<^verbatim>\<open>list.index(v)\<close>: the first position holding \<^verbatim>\<open>v\<close>, or \<^verbatim>\<open>ValueError\<close>.\<close>

fun py_index :: "'a list \<Rightarrow> 'a \<Rightarrow> py_error + nat" where
  "py_index [] v = Inl ValueError"
| "py_index (x # xs) v =
     (if x = v then Inr 0
      else (case py_index xs v of Inl e \<Rightarrow> Inl e | Inr i \<Rightarrow> Inr (Suc i)))"

text \<open>
  \<^verbatim>\<open>max(xs)\<close> and \<^verbatim>\<open>min(xs)\<close> scan from the left and replace the running answer only
  by a strictly better item; on an empty list they raise \<^verbatim>\<open>ValueError\<close>.
\<close>

definition py_max :: "real list \<Rightarrow> py_error + real" where
  "py_max xs =
     (case xs of [] \<Rightarrow> Inl ValueError
      | x # rest \<Rightarrow> Inr (fold (\<lambda>item best. if item > best then item else best) rest x))"

definition py_min :: "real list \<Rightarrow> py_error + real" where
  "py_min xs =
     (case xs of [] \<Rightarrow> Inl ValueError
      | x # rest \<Rightarrow> Inr (fold (\<lambda>item best. if item < best then item else best) rest x))"

text \<open>
  \<^verbatim>\<open>sorted(xs, key=key, reverse=reverse)\<close>. The sort is stable; with \<^verbatim>\<open>reverse=True\<close>
  the list is reversed, sorted stably and reversed again, which is how the interpreter
  keeps equal keys in their original order.
\<close>

definition py_sorted :: "('a \<Rightarrow> real) \<Rightarrow> bool \<Rightarrow> 'a list \<Rightarrow> 'a list" where
  "py_sorted key reverse xs =
     (if reverse then rev (sort_key key (rev xs)) else sort_key key xs)"

text \<open>\<^verbatim>\<open>sep.join(xs)\<close>, \<^verbatim>\<open>str.capitalize\<close> on ASCII text.\<close>

fun py_join :: "string \<Rightarrow> string list \<Rightarrow> string" where
  "py_join sep [] = []"
| "py_join sep [x] = x"
| "py_join sep (x # y # ys) = x @ sep @ py_join sep (y # ys)"

definition upper_char :: "char \<Rightarrow> char" where
  "upper_char c =
     (case map_of (zip ''abcdefghijklmnopqrstuvwxyz'' ''ABCDEFGHIJKLMNOPQRSTUVWXYZ'') c of
        None \<Rightarrow> c | Some u \<Rightarrow> u)"

definition lower_char :: "char \<Rightarrow> char" where
  "lower_char c =
     (case map_of (zip ''ABCDEFGHIJKLMNOPQRSTUVWXYZ'' ''abcdefghijklmnopqrstuvwxyz'') c of
        None \<Rightarrow> c | Some l \<Rightarrow> l)"

fun capitalize :: "string \<Rightarrow> string" where
  "capitalize [] = []"
| "capitalize (c # cs) = upper_char c # map lower_char cs"

text \<open>
  Rounding to the nearest integer, ties to even: the rule behind \<^verbatim>\<open>round(x, 2)\<close>
  and behind the format specifications \<^verbatim>\<open>:.1f\<close> and \<^verbatim>\<open>:.0f\<close>.
\<close>

definition round_half_even :: "real \<Rightarrow> int" where
  "round_half_even y =
     (let f = \<lfloor>y\<rfloor>; d = y - of_int f
      in if d < 1 / 2 then f else if d > 1 / 2 then f + 1
         else if even f then f else f + 1)"

definition py_round :: "real \<Rightarrow> nat \<Rightarrow> real" where
  "py_round x ndigits = of_int (round_half_even (x * 10 ^ ndigits)) / 10 ^ ndigits"

fun digits :: "nat \<Rightarrow> string" where
  "digits n =
     (if n < 10 then [''0123456789'' ! n]
      else digits (n div 10) @ [''0123456789'' ! (n mod 10)])"

definition format_f :: "nat \<Rightarrow> real \<Rightarrow> string" where
  "format_f prec x =
     (let scaled = nat (round_half_even (\<bar>x\<bar> * 10 ^ prec));
          whole = digits (scaled div 10 ^ prec);
          frac = digits (scaled mod 10 ^ prec);
          padded = replicate (prec - length frac) (CHR ''0'') @ frac
      in (if x < 0 then ''-'' else [])
           @ whole @ (if prec = 0 then [] else ''.'' @ padded))"

subsection \<open>The statistics module\<close>

definition statistics_mean :: "real list \<Rightarrow> py_error + real" where
  "statistics_mean xs =
     (if xs = [] then Inl StatisticsError else Inr (sum_list xs / real (length xs)))"

text \<open>The sample standard deviation (divisor \<open>n - 1\<close>); fewer than two points raise.\<close>

definition statistics_stdev :: "real list \<Rightarrow> py_error + real" where
  "statistics_stdev xs =
     (if length xs < 2 then Inl StatisticsError
      else let m = sum_list xs / real (length xs);
               ss = sum_list (map (\<lambda>x. (x - m)\<^sup>2) xs)
           in Inr (sqrt (ss / real (length xs - 1))))"

subsection \<open>Helpers of the core package\<close>

definition calculate_z_score :: "real \<Rightarrow> real \<Rightarrow> real \<Rightarrow> real" where
  "calculate_z_score v mean std_dev = (if std_dev = 0 then 0 else (v - mean) / std_dev)"

definition safe_divide :: "real \<Rightarrow> real \<Rightarrow> real \<Rightarrow> real" where
  "safe_divide numerator denominator dflt =
     (if denominator = 0 then dflt else numerator / denominator)"

definition calculate_growth_rate :: "real \<Rightarrow> real \<Rightarrow> real" where
  "calculate_growth_rate cur previous =
     (if previous = 0 then 0 else ((cur - previous) / previous) * 100)"

text \<open>The settings the services read, with the defaults of \<^verbatim>\<open>app/core/config.py\<close>.\<close>

record Settings =
  ews_receivable_spike_threshold :: real
  ews_inventory_spike_threshold :: real
  ews_margin_compression_threshold :: real
  ews_debt_ratio_critical :: real
  default_risk_free_rate :: real
  default_market_risk_premium :: real
  default_beta :: real
  default_tax_rate :: real

definition get_settings :: Settings where
  "get_settings = \<lparr> ews_receivable_spike_threshold = 0.2,
     ews_inventory_spike_threshold = 0.2, ews_margin_compression_threshold = - 0.05,
     ews_debt_ratio_critical = 0.7,
     default_risk_free_rate = 0.02, default_market_risk_premium = 0.06,
     default_beta = 1.0, default_tax_rate = 0.2 \<rparr>"

text \<open>Truthiness of an \<^verbatim>\<open>Optional[float]\<close>: \<^verbatim>\<open>None\<close> and \<^verbatim>\<open>0.0\<close> are both false.\<close>

fun truthy :: "real option \<Rightarrow> bool" where
  "truthy None = False"
| "truthy (Some x) = (x \<noteq> 0)"

subsection \<open>FinancialSnapshot\<close>

record FinancialSnapshot =
  stock_code :: string
  company_name :: string
  report_year :: int
  report_season :: int
  report_period :: string
  currency :: string
  unit :: string
  cash_and_equivalents :: real
  accounts_receivable :: real
  inventory :: real
  total_assets :: real
  total_liabilities :: real
  equity :: real
  net_revenue :: real
  gross_profit :: real
  operating_income :: real
  net_income :: real
  eps :: real
  current_assets :: "real option"
  current_liabilities :: "real option"
  short_term_debt :: "real option"
  long_term_debt :: "real option"
  retained_earnings :: "real option"
  operating_cash_flow :: "real option"
  investing_cash_flow :: "real option"
  financing_cash_flow :: "real option"

definition gross_margin :: "FinancialSnapshot \<Rightarrow> real" where
  "gross_margin s =
     (if net_revenue s = 0 then 0 else (gross_profit s / net_revenue s) * 100)"

definition operating_margin :: "FinancialSnapshot \<Rightarrow> real" where
  "operating_margin s =
     (if net_revenue s = 0 then 0 else (operating_income s / net_revenue s) * 100)"

definition net_margin :: "FinancialSnapshot \<Rightarrow> real" where
  "net_margin s =
     (if net_revenue s = 0 then 0 else (net_income s / net_revenue s) * 100)"

definition debt_ratio :: "FinancialSnapshot \<Rightarrow> real" where
  "debt_ratio s =
     (if total_assets s = 0 then 0 else (total_liabilities s / total_assets s) * 100)"

definition equity_ratio :: "FinancialSnapshot \<Rightarrow> real" where
  "equity_ratio s =
     (if total_assets s = 0 then 0 else (equity s / total_assets s) * 100)"

text \<open>
  \<^verbatim>\<open>if self.current_assets and self.current_liabilities and self.current_liabilities != 0\<close>:
  the first two conjuncts are truthiness tests, so a present value of zero fails them.
\<close>

definition current_ratio :: "FinancialSnapshot \<Rightarrow> real option" where
  "current_ratio s =
     (if truthy (current_assets s) \<and> truthy (current_liabilities s)
         \<and> current_liabilities s \<noteq> Some 0
      then Some (the (current_assets s) / the (current_liabilities s))
      else None)"

definition roa :: "FinancialSnapshot \<Rightarrow> real" where
  "roa s =
     (if total_assets s = 0 then 0
      else let quarterly_roa = (net_income s / total_assets s) * 100 in quarterly_roa * 4)"

definition roe :: "FinancialSnapshot \<Rightarrow> real" where
  "roe s =
     (if equity s = 0 then 0
      else let quarterly_roe = (net_income s / equity s) * 100 in quarterly_roe * 4)"

text \<open>The snapshot of the repository's model test.\<close>

definition tsmc :: FinancialSnapshot where
  "tsmc = \<lparr> stock_code = ''2330'', company_name = ''TSMC'', report_year = 2023,
     report_season = 3, report_period = ''2023Q3'', currency = ''TWD'', unit = ''thousand'',
     cash_and_equivalents = 1000000, accounts_receivable = 200000, inventory = 150000,
     total_assets = 5000000, total_liabilities = 2000000, equity = 3000000,
     net_revenue = 800000, gross_profit = 400000, operating_income = 300000,
     net_income = 250000, eps = 965 / 100,
     current_assets = None, current_liabilities = None, short_term_debt = None,
     long_term_debt = None, retained_earnings = None, operating_cash_flow = None,
     investing_cash_flow = None, financing_cash_flow = None \<rparr>"

subsection \<open>Score objects\<close>

text \<open>
  The four components are validated on construction (\<^verbatim>\<open>Field(..., ge=0, le=100)\<close>);
  \<^verbatim>\<open>total\<close> is a computed property, so it is a function of the record and not a field.
  The \<^verbatim>\<open>details\<close> dictionary is an association list of text.
\<close>

record ManagementScore =
  tenure_stability :: real
  board_independence :: real
  insider_alignment :: real
  governance_red_flags :: real
  commentary :: string
  details :: "(string \<times> string) list"

definition in_score_range :: "real \<Rightarrow> bool" where
  "in_score_range x = (0 \<le> x \<and> x \<le> 100)"

definition ManagementScore_new ::
  "real \<Rightarrow> real \<Rightarrow> real \<Rightarrow> real \<Rightarrow> string \<Rightarrow> (string \<times> string) list
     \<Rightarrow> py_error + ManagementScore" where
  "ManagementScore_new t b i g c d =
     (if in_score_range t \<and> in_score_range b \<and> in_score_range i \<and> in_score_range g
      then Inr \<lparr> tenure_stability = t, board_independence = b, insider_alignment = i,
                 governance_red_flags = g, commentary = c, details = d \<rparr>
      else Inl ValidationError)"

definition ManagementScore_total :: "ManagementScore \<Rightarrow> real" where
  "ManagementScore_total m =
     0.25 * tenure_stability m + 0.25 * board_independence m
       + 0.25 * insider_alignment m + 0.25 * governance_red_flags m"

record EarningsQualityScore =
  accrual_quality :: real
  working_capital_behavior :: real
  one_off_dependency :: real
  earnings_stability :: real
  red_flags :: "string list"
  commentary :: string
  details :: "(string \<times> string) list"

definition EarningsQualityScore_new ::
  "real \<Rightarrow> real \<Rightarrow> real \<Rightarrow> real \<Rightarrow> string list \<Rightarrow> string \<Rightarrow> (string \<times> string) list
     \<Rightarrow> py_error + EarningsQualityScore" where
  "EarningsQualityScore_new a w od e r c d =
     (if in_score_range a \<and> in_score_range w \<and> in_score_range od \<and> in_score_range e
      then Inr \<lparr> accrual_quality = a, working_capital_behavior = w, one_off_dependency = od,
                 earnings_stability = e, red_flags = r, commentary = c, details = d \<rparr>
      else Inl ValidationError)"

definition EarningsQualityScore_total :: "EarningsQualityScore \<Rightarrow> real" where
  "EarningsQualityScore_total q =
     0.25 * accrual_quality q + 0.25 * working_capital_behavior q
       + 0.25 * one_off_dependency q + 0.25 * earnings_stability q"

subsection \<open>ROICWACCAnalysis\<close>

record ROICWACCAnalysis =
  nopat :: real
  invested_capital :: real
  roic :: real
  cost_of_equity :: real
  cost_of_debt :: real
  wacc :: real
  commentary :: string
  assumptions :: "(string \<times> real) list"

definition value_creation_gap :: "ROICWACCAnalysis \<Rightarrow> real" where
  "value_creation_gap a = roic a - wacc a"

definition is_value_creating :: "ROICWACCAnalysis \<Rightarrow> bool" where
  "is_value_creating a = (roic a > wacc a)"

subsection \<open>FactorExposures\<close>

record FactorExposures =
  fe_quality :: real
  fe_value :: real
  fe_momentum :: real
  fe_size :: real
  fe_volatility :: real
  commentary :: string
  details :: "(string \<times> real) list"

subsection \<open>Early-warning signals\<close>

record EarlyWarningSignal =
  signal_name :: string
  severity :: string
  current_value :: real
  threshold_value :: real
  description :: string

record EarlyWarningSystem =
  warning_level :: string
  triggered_signals :: "EarlyWarningSignal list"
  recommendation :: string
  commentary :: string

definition signal_count :: "EarlyWarningSystem \<Rightarrow> nat" where
  "signal_count w = length (triggered_signals w)"

subsection \<open>TrendMetric\<close>

record TrendMetric =
  metric_name :: string
  periods :: "string list"
  "values" :: "real list"

text \<open>
  \<^verbatim>\<open>values[-3:]\<close> keeps the last three values; the two \<^verbatim>\<open>all(...)\<close> tests range over
  \<^verbatim>\<open>range(1, len(recent))\<close>.
\<close>

definition trend_direction :: "TrendMetric \<Rightarrow> string" where
  "trend_direction m =
     (let vs = TrendMetric.values m in
      if length vs < 2 then ''insufficient_data''
      else
        let recent = (if length vs \<ge> 3 then drop (length vs - 3) vs else vs) in
        if list_all (\<lambda>i. recent ! i > recent ! (i - 1)) [1..<length recent]
        then ''improving''
        else if list_all (\<lambda>i. recent ! i < recent ! (i - 1)) [1..<length recent]
        then ''declining''
        else ''stable'')"

definition latest_value :: "TrendMetric \<Rightarrow> real option" where
  "latest_value m =
     (let vs = TrendMetric.values m in if vs \<noteq> [] then Some (last vs) else None)"

text \<open>
  \<^verbatim>\<open>values[-1]\<close>, \<^verbatim>\<open>values[-5]\<close> and \<^verbatim>\<open>values[-4]\<close> are read only under the length
  tests that keep them in range.
\<close>

definition yoy_change :: "TrendMetric \<Rightarrow> real option" where
  "yoy_change m =
     (let vs = TrendMetric.values m; n = length vs in
      if n \<ge> 4 then
        let current = vs ! (n - 1);
            year_ago = (if n \<ge> 5 then vs ! (n - 5) else vs ! (n - 4))
        in if year_ago \<noteq> 0 then Some (((current - year_ago) / year_ago) * 100) else None
      else None)"

subsection \<open>PeerComparison\<close>

record PeerComparison =
  metric_name :: string
  companies :: "string list"
  "values" :: "real list"
  ranking :: "nat list"

definition best_performer :: "PeerComparison \<Rightarrow> py_error + string" where
  "best_performer c =
     (if PeerComparison.values c = [] then Inr ''N/A''
      else
        case py_max (PeerComparison.values c) of Inl e \<Rightarrow> Inl e
        | Inr best \<Rightarrow>
            (case py_index (PeerComparison.values c) best of Inl e \<Rightarrow> Inl e
             | Inr best_idx \<Rightarrow>
                 if best_idx < length (companies c) then Inr (companies c ! best_idx)
                 else Inl IndexError))"

definition worst_performer :: "PeerComparison \<Rightarrow> py_error + string" where
  "worst_performer c =
     (if PeerComparison.values c = [] then Inr ''N/A''
      else
        case py_min (PeerComparison.values c) of Inl e \<Rightarrow> Inl e
        | Inr worst \<Rightarrow>
            (case py_index (PeerComparison.values c) worst of Inl e \<Rightarrow> Inl e
             | Inr worst_idx \<Rightarrow>
                 if worst_idx < length (companies c) then Inr (companies c ! worst_idx)
                 else Inl IndexError))"

subsection \<open>The snapshot store\<close>

text \<open>
  \<^verbatim>\<open>DataLoader\<close> reads files; here the files are a partial function from stock code
  and period to snapshot, together with the two directory listings.
\<close>

record DataLoader =
  load_snapshot :: "string \<Rightarrow> string \<Rightarrow> FinancialSnapshot option"
  list_available_periods :: "string \<Rightarrow> string list"
  list_all_stocks :: "string list"

definition load_multiple_periods ::
  "DataLoader \<Rightarrow> string \<Rightarrow> string list \<Rightarrow> FinancialSnapshot list" where
  "load_multiple_periods dl code ps = List.map_filter (load_snapshot dl code) ps"

subsection \<open>PeerService\<close>

text \<open>
  The ranking loop writes \<^verbatim>\<open>ranking[idx] = rank\<close> for each pair of
  \<^verbatim>\<open>enumerate(sorted_values, start=1)\<close>; every \<^verbatim>\<open>idx\<close> comes from
  \<^verbatim>\<open>enumerate(values)\<close> and is in range.
\<close>

definition compare_metric ::
  "string \<Rightarrow> FinancialSnapshot list \<Rightarrow> (FinancialSnapshot \<Rightarrow> real) \<Rightarrow> bool
     \<Rightarrow> PeerComparison" where
  "compare_metric name snapshots extractor higher_is_better =
     (let cs = map company_name snapshots;
          vs = map extractor snapshots;
          sorted_values =
            (if higher_is_better then py_sorted snd True (List.enumerate 0 vs)
             else py_sorted snd False (List.enumerate 0 vs));
          rk = fold (\<lambda>(rank, (idx, _)) r. r[idx := rank])
                 (List.enumerate 1 sorted_values) (replicate (length vs) 0)
      in \<lparr> metric_name = name, companies = cs, values = vs, ranking = rk \<rparr>)"

subsection \<open>EarlyWarningService\<close>

text \<open>
  The six detection rules. Each returns the empty list or one signal;
  \<^verbatim>\<open>historical[-1]\<close> and \<^verbatim>\<open>historical[-3:]\<close> are read under the length tests of the code.
\<close>

definition check_receivables_spike ::
  "Settings \<Rightarrow> FinancialSnapshot \<Rightarrow> FinancialSnapshot list \<Rightarrow> EarlyWarningSignal list" where
  "check_receivables_spike settings current historical =
     (if length historical < 1 then []
      else
        let previous = last historical;
            revenue_growth =
              calculate_growth_rate (net_revenue current) (net_revenue previous);
            receivable_growth =
              calculate_growth_rate (accounts_receivable current) (accounts_receivable previous);
            threshold = ews_receivable_spike_threshold settings * 100
        in if receivable_growth > revenue_growth + threshold
           then [\<lparr> signal_name = ''Accounts Receivable Spike'', severity = ''medium'',
                    current_value = receivable_growth,
                    threshold_value = revenue_growth + threshold,
                    description =
                      ''AR growing at '' @ format_f 1 receivable_growth @ ''% vs revenue ''
                      @ format_f 1 revenue_growth
                      @ ''%. May indicate revenue recognition issues or collection problems.'' \<rparr>]
           else [])"

definition check_inventory_spike ::
  "Settings \<Rightarrow> FinancialSnapshot \<Rightarrow> FinancialSnapshot list \<Rightarrow> EarlyWarningSignal list" where
  "check_inventory_spike settings current historical =
     (if length historical < 1 then []
      else
        let previous = last historical;
            revenue_growth =
              calculate_growth_rate (net_revenue current) (net_revenue previous);
            inventory_growth =
              calculate_growth_rate (inventory current) (inventory previous);
            threshold = ews_inventory_spike_threshold settings * 100
        in if inventory_growth > revenue_growth + threshold
           then [\<lparr> signal_name = ''Inventory Buildup'', severity = ''medium'',
                    current_value = inventory_growth,
                    threshold_value = revenue_growth + threshold,
                    description =
                      ''Inventory growing at '' @ format_f 1 inventory_growth
                      @ ''% vs revenue '' @ format_f 1 revenue_growth
                      @ ''%. May indicate slowing demand or obsolescence risk.'' \<rparr>]
           else [])"

definition check_margin_compression ::
  "Settings \<Rightarrow> FinancialSnapshot \<Rightarrow> FinancialSnapshot list \<Rightarrow> EarlyWarningSignal list" where
  "check_margin_compression settings current historical =
     (if length historical < 2 then []
      else
        let avg_margin =
              sum_list (map operating_margin (drop (length historical - 3) historical))
                / real (min 3 (length historical));
            margin_change = operating_margin current - avg_margin;
            threshold = ews_margin_compression_threshold settings * 100
        in if margin_change < threshold
           then [\<lparr> signal_name = ''Margin Compression'',
                    severity = (if margin_change < threshold * 2 then ''high'' else ''medium''),
                    current_value = operating_margin current,
                    threshold_value = avg_margin + threshold,
                    description =
                      ''Operating margin declined to '' @ format_f 1 (operating_margin current)
                      @ ''% from avg '' @ format_f 1 avg_margin
                      @ ''%. Indicates pricing pressure or cost inflation.'' \<rparr>]
           else [])"

definition check_leverage_deterioration ::
  "Settings \<Rightarrow> FinancialSnapshot \<Rightarrow> EarlyWarningSignal list" where
  "check_leverage_deterioration settings current =
     (let ratio = debt_ratio current / 100;
          threshold = ews_debt_ratio_critical settings
      in if ratio \<ge> threshold
         then [\<lparr> signal_name = ''High Leverage'',
                  severity = (if ratio \<ge> 0.8 then ''critical'' else ''high''),
                  current_value = ratio * 100,
                  threshold_value = threshold * 100,
                  description =
                    ''Debt ratio at '' @ format_f 1 (ratio * 100)
                    @ ''% exceeds safe threshold. Financial distress risk.'' \<rparr>]
         else [])"

definition check_cash_burn ::
  "FinancialSnapshot \<Rightarrow> FinancialSnapshot list \<Rightarrow> EarlyWarningSignal list" where
  "check_cash_burn current historical =
     (if length historical < 2 then []
      else
        let avg_cash =
              sum_list (map cash_and_equivalents (drop (length historical - 3) historical))
                / real (min 3 (length historical));
            cash_decline_pct =
              (if avg_cash > 0 then ((cash_and_equivalents current - avg_cash) / avg_cash) * 100
               else 0)
        in if cash_decline_pct < - 30
           then [\<lparr> signal_name = ''Cash Depletion'',
                    severity = (if cash_decline_pct < - 50 then ''high'' else ''medium''),
                    current_value = cash_decline_pct,
                    threshold_value = - 30,
                    description =
                      ''Cash declined '' @ format_f 1 \<bar>cash_decline_pct\<bar>
                      @ ''%. Liquidity concern.'' \<rparr>]
           else [])"

definition check_negative_cash_flow :: "FinancialSnapshot \<Rightarrow> EarlyWarningSignal list" where
  "check_negative_cash_flow current =
     (if truthy (operating_cash_flow current) \<and> the (operating_cash_flow current) < 0
      then [\<lparr> signal_name = ''Negative Operating Cash Flow'', severity = ''high'',
               current_value = the (operating_cash_flow current),
               threshold_value = 0,
               description =
                 ''Negative operating cash flow. Company burning cash from operations.'' \<rparr>]
      else [])"

definition determine_warning_level :: "EarlyWarningSignal list \<Rightarrow> string" where
  "determine_warning_level signals =
     (if signals = [] then ''none''
      else
        let critical_count = length (filter (\<lambda>s. severity s = ''critical'') signals);
            high_count = length (filter (\<lambda>s. severity s = ''high'') signals);
            medium_count = length (filter (\<lambda>s. severity s = ''medium'') signals)
        in if critical_count > 0 then ''critical''
           else if high_count \<ge> 2 then ''high''
           else if high_count \<ge> 1 then ''high''
           else if medium_count \<ge> 3 then ''medium''
           else if medium_count \<ge> 1 then ''low''
           else ''low'')"

definition generate_recommendations :: "EarlyWarningSignal list \<Rightarrow> string \<Rightarrow> string" where
  "generate_recommendations signals level =
     (if level = ''critical'' then
        ''URGENT: Immediate review required. Consider reducing position or exiting. High risk of financial distress.''
      else if level = ''high'' then
        ''Closely monitor position. Conduct deep-dive analysis. Consider reducing exposure.''
      else if level = ''medium'' then
        ''Watch list. Monitor next quarter results. Prepare contingency plans.''
      else if level = ''low'' then
        ''Minor concerns identified. Continue regular monitoring.''
      else ''No significant concerns. Maintain current monitoring cadence.'')"

definition EarlyWarningService_generate_commentary ::
  "EarlyWarningSignal list \<Rightarrow> string \<Rightarrow> string" where
  "EarlyWarningService_generate_commentary signals level =
     (if signals = [] then
        ''No early warning signals detected. Financial health appears stable.''
      else
        let signal_names = map signal_name signals
        in ''Warning level: '' @ map upper_char level @ ''. Detected ''
             @ digits (length signals) @ '' signal(s): '' @ py_join '', '' signal_names
             @ ''. Recommend detailed investigation.'')"

text \<open>
  \<^verbatim>\<open>detect_warnings\<close>: without explicit periods the history is the last five available
  periods (\<^verbatim>\<open>all_periods[-5:]\<close>) when the store lists at least two, else none.
\<close>

definition detect_warnings ::
  "DataLoader \<Rightarrow> Settings \<Rightarrow> string \<Rightarrow> string \<Rightarrow> string list option
     \<Rightarrow> EarlyWarningSystem option" where
  "detect_warnings dl settings code period historical_periods =
     (case load_snapshot dl code period of None \<Rightarrow> None
      | Some current \<Rightarrow>
          let hp =
                (case historical_periods of
                   None \<Rightarrow>
                     (let all_periods = list_available_periods dl code
                      in if length all_periods \<ge> 2
                         then drop (length all_periods - 5) all_periods else [])
                 | Some ps \<Rightarrow> ps);
              historical = load_multiple_periods dl code hp;
              signals =
                check_receivables_spike settings current historical
                @ check_inventory_spike settings current historical
                @ check_margin_compression settings current historical
                @ check_leverage_deterioration settings current
                @ check_cash_burn current historical
                @ check_negative_cash_flow current;
              level = determine_warning_level signals
          in Some \<lparr> warning_level = level, triggered_signals = signals,
                     recommendation = generate_recommendations signals level,
                     commentary = EarlyWarningService_generate_commentary signals level \<rparr>)"

subsection \<open>FactorService\<close>

definition quality_score :: "FinancialSnapshot \<Rightarrow> real" where
  "quality_score s = roe s + operating_margin s - (debt_ratio s / 2)"

text \<open>
  Each factor takes the mean of the peer values and
  \<^verbatim>\<open>statistics.stdev(xs) if len(xs) > 1 else 1.0\<close>, then calls \<^verbatim>\<open>calculate_z_score\<close>.
\<close>

definition calculate_quality_factor ::
  "FinancialSnapshot \<Rightarrow> FinancialSnapshot list \<Rightarrow> py_error + real" where
  "calculate_quality_factor target peers =
     (let target_score = quality_score target;
          peer_scores = map quality_score peers
      in case statistics_mean peer_scores of Inl e \<Rightarrow> Inl e
         | Inr mean_score \<Rightarrow>
             (case (if length peer_scores > 1 then statistics_stdev peer_scores else Inr 1) of
                Inl e \<Rightarrow> Inl e
              | Inr std_score \<Rightarrow> Inr (calculate_z_score target_score mean_score std_score)))"

definition calculate_value_factor ::
  "FinancialSnapshot \<Rightarrow> FinancialSnapshot list \<Rightarrow> py_error + real" where
  "calculate_value_factor target peers =
     (let target_eps = eps target;
          peer_eps = map eps (filter (\<lambda>p. eps p > 0) peers)
      in if peer_eps = [] then Inr 0
         else
           case statistics_mean peer_eps of Inl e \<Rightarrow> Inl e
           | Inr mean_eps \<Rightarrow>
               (case (if length peer_eps > 1 then statistics_stdev peer_eps else Inr 1) of
                  Inl e \<Rightarrow> Inl e
                | Inr std_eps \<Rightarrow> Inr (calculate_z_score target_eps mean_eps std_eps)))"

definition calculate_momentum_factor ::
  "FinancialSnapshot \<Rightarrow> FinancialSnapshot list \<Rightarrow> py_error + real" where
  "calculate_momentum_factor target peers =
     (let target_margin = net_margin target;
          peer_margins = map net_margin peers
      in case statistics_mean peer_margins of Inl e \<Rightarrow> Inl e
         | Inr mean_margin \<Rightarrow>
             (case (if length peer_margins > 1 then statistics_stdev peer_margins else Inr 1) of
                Inl e \<Rightarrow> Inl e
              | Inr std_margin \<Rightarrow> Inr (calculate_z_score target_margin mean_margin std_margin)))"

definition calculate_size_factor ::
  "FinancialSnapshot \<Rightarrow> FinancialSnapshot list \<Rightarrow> py_error + real" where
  "calculate_size_factor target peers =
     (let target_size = (if total_assets target > 0 then ln (total_assets target) else 0);
          peer_sizes = map (\<lambda>p. if total_assets p > 0 then ln (total_assets p) else 0) peers
      in case statistics_mean peer_sizes of Inl e \<Rightarrow> Inl e
         | Inr mean_size \<Rightarrow>
             (case (if length peer_sizes > 1 then statistics_stdev peer_sizes else Inr 1) of
                Inl e \<Rightarrow> Inl e
              | Inr std_size \<Rightarrow> Inr (calculate_z_score target_size mean_size std_size)))"

definition calculate_volatility_factor ::
  "FinancialSnapshot \<Rightarrow> FinancialSnapshot list \<Rightarrow> py_error + real" where
  "calculate_volatility_factor target peers =
     (let target_debt = debt_ratio target;
          peer_debts = map debt_ratio peers
      in case statistics_mean peer_debts of Inl e \<Rightarrow> Inl e
         | Inr mean_debt \<Rightarrow>
             (case (if length peer_debts > 1 then statistics_stdev peer_debts else Inr 1) of
                Inl e \<Rightarrow> Inl e
              | Inr std_debt \<Rightarrow> Inr (calculate_z_score target_debt mean_debt std_debt)))"

definition FactorService_generate_commentary ::
  "real \<Rightarrow> real \<Rightarrow> real \<Rightarrow> real \<Rightarrow> real \<Rightarrow> string" where
  "FactorService_generate_commentary q v m sz vol =
     (let parts =
            (if q > 1.5 then [''Strong quality profile'']
             else if q > 0.5 then [''Above-average quality'']
             else if q < - 1.5 then [''Weak quality profile'']
             else if q < - 0.5 then [''Below-average quality'']
             else [])
          @ (if v > 1.0 then [''attractive valuation'']
             else if v < - 1.0 then [''expensive valuation'']
             else [])
          @ (if m > 1.0 then [''strong momentum'']
             else if m < - 1.0 then [''weak momentum'']
             else [])
          @ (if sz > 1.5 then [''large cap'']
             else if sz < - 1.5 then [''small cap'']
             else [''mid cap''])
          @ (if vol > 1.0 then [''higher volatility/risk'']
             else if vol < - 1.0 then [''lower volatility/risk'']
             else [])
      in if parts = [] then ''Neutral factor profile across dimensions''
         else py_join ''. '' (map capitalize parts) @ ''.'')"

text \<open>
  \<^verbatim>\<open>calculate_exposures\<close> returns \<^verbatim>\<open>None\<close> when the target is missing or fewer than
  three peers load; an exception of the statistics module would escape as \<open>Inl\<close>.
\<close>

definition calculate_exposures ::
  "DataLoader \<Rightarrow> string \<Rightarrow> string \<Rightarrow> string list option
     \<Rightarrow> py_error + FactorExposures option" where
  "calculate_exposures dl code period peer_stocks =
     (case load_snapshot dl code period of None \<Rightarrow> Inr None
      | Some target \<Rightarrow>
          let stocks =
                (if peer_stocks = None \<or> length (the peer_stocks) < 3
                 then take 20 (filter (\<lambda>s. s \<noteq> code) (list_all_stocks dl))
                 else the peer_stocks);
              peers = List.map_filter (\<lambda>peer_code. load_snapshot dl peer_code period) stocks
          in if length peers < 3 then Inr None
             else
               (case calculate_quality_factor target peers of Inl e \<Rightarrow> Inl e
                | Inr quality_z \<Rightarrow>
               (case calculate_value_factor target peers of Inl e \<Rightarrow> Inl e
                | Inr value_z \<Rightarrow>
                (case calculate_momentum_factor target peers of Inl e \<Rightarrow> Inl e
                 | Inr momentum_z \<Rightarrow>
                 (case calculate_size_factor target peers of Inl e \<Rightarrow> Inl e
                  | Inr size_z \<Rightarrow>
                  (case calculate_volatility_factor target peers of Inl e \<Rightarrow> Inl e
                   | Inr volatility_z \<Rightarrow>
                       Inr (Some
                         \<lparr> fe_quality = py_round quality_z 2,
                           fe_value = py_round value_z 2,
                           fe_momentum = py_round momentum_z 2,
                           fe_size = py_round size_z 2,
                           fe_volatility = py_round volatility_z 2,
                           commentary =
                             FactorService_generate_commentary
                               quality_z value_z momentum_z size_z volatility_z,
                           details =
                             [(''peer_count'', real (length peers)),
                              (''target_roe'', roe target),
                              (''target_total_assets'', total_assets target)] \<rparr>)))))))"

subsection \<open>ROICWACCService\<close>

definition calculate_nopat :: "FinancialSnapshot \<Rightarrow> real \<Rightarrow> real" where
  "calculate_nopat snapshot tax_rate = operating_income snapshot * (1 - tax_rate)"

definition calculate_invested_capital :: "FinancialSnapshot \<Rightarrow> real" where
  "calculate_invested_capital snapshot = equity snapshot + total_liabilities snapshot"

definition calculate_cost_of_equity :: "Settings \<Rightarrow> real \<Rightarrow> real" where
  "calculate_cost_of_equity settings beta =
     (let rf = default_risk_free_rate settings;
          mrp = default_market_risk_premium settings
      in rf + beta * mrp)"

definition estimate_cost_of_debt :: "FinancialSnapshot \<Rightarrow> real" where
  "estimate_cost_of_debt snapshot =
     (let ratio = debt_ratio snapshot / 100;
          base_rate = 0.03;
          leverage_spread = ratio * 0.05
      in base_rate + leverage_spread)"

definition ROICWACCService_generate_commentary ::
  "real \<Rightarrow> real \<Rightarrow> FinancialSnapshot \<Rightarrow> string" where
  "ROICWACCService_generate_commentary r w snapshot =
     (let spread = r - w;
          p1 =
            (if spread > 5 then
               ''Strong value creation: ROIC ('' @ format_f 1 r
                 @ ''%) significantly exceeds WACC ('' @ format_f 1 w @ ''%)''
             else if spread > 2 then
               ''Positive value creation: ROIC ('' @ format_f 1 r
                 @ ''%) above WACC ('' @ format_f 1 w @ ''%)''
             else if spread > 0 then
               ''Marginal value creation: ROIC ('' @ format_f 1 r
                 @ ''%) slightly above WACC ('' @ format_f 1 w @ ''%)''
             else if spread > - 2 then
               ''Value neutral: ROIC ('' @ format_f 1 r
                 @ ''%) near WACC ('' @ format_f 1 w @ ''%)''
             else
               ''Value destruction: ROIC ('' @ format_f 1 r
                 @ ''%) below WACC ('' @ format_f 1 w @ ''%)'');
          p2 =
            (if r \<ge> 15 then ''Highly efficient capital allocation''
             else if r \<ge> 10 then ''Good capital efficiency''
             else if r \<ge> 5 then ''Moderate capital efficiency''
             else ''Poor capital efficiency'');
          dr = debt_ratio snapshot;
          p3 =
            (if dr > 60 then [''High leverage ('' @ format_f 0 dr @ ''%) increases WACC'']
             else if dr < 30 then
               [''Conservative capital structure ('' @ format_f 0 dr @ ''%)'']
             else [])
      in py_join ''. '' ([p1, p2] @ p3) @ ''.'')"

text \<open>
  \<^verbatim>\<open>analyze\<close>: the three optional arguments default as the code does (the beta and the
  tax rate from the settings, the cost of debt from the leverage heuristic); the
  record returned holds every figure rounded to two decimals.
\<close>

definition analyze ::
  "DataLoader \<Rightarrow> Settings \<Rightarrow> string \<Rightarrow> string \<Rightarrow> real option \<Rightarrow> real option \<Rightarrow> real option
     \<Rightarrow> ROICWACCAnalysis option" where
  "analyze dl settings code period market_beta cost_of_debt_arg tax_rate_arg =
     (case load_snapshot dl code period of None \<Rightarrow> None
      | Some snapshot \<Rightarrow>
          let beta = (case market_beta of None \<Rightarrow> default_beta settings | Some b \<Rightarrow> b);
              tax_rate =
                (case tax_rate_arg of None \<Rightarrow> default_tax_rate settings | Some t \<Rightarrow> t);
              nopat_v = calculate_nopat snapshot tax_rate;
              invested = calculate_invested_capital snapshot;
              roic_v = safe_divide nopat_v invested 0 * 100;
              coe = calculate_cost_of_equity settings beta;
              cod =
                (case cost_of_debt_arg of None \<Rightarrow> estimate_cost_of_debt snapshot
                 | Some c \<Rightarrow> c);
              after_tax_cost_of_debt = cod * (1 - tax_rate);
              total_capital = equity snapshot + total_liabilities snapshot;
              equity_weight = safe_divide (equity snapshot) total_capital 0;
              debt_weight = safe_divide (total_liabilities snapshot) total_capital 0;
              wacc_v = (equity_weight * coe + debt_weight * after_tax_cost_of_debt) * 100
          in Some
               \<lparr> nopat = py_round nopat_v 2,
                 invested_capital = py_round invested 2,
                 roic = py_round roic_v 2,
                 cost_of_equity = py_round (coe * 100) 2,
                 cost_of_debt = py_round (after_tax_cost_of_debt * 100) 2,
                 wacc = py_round wacc_v 2,
                 commentary = ROICWACCService_generate_commentary roic_v wacc_v snapshot,
                 assumptions =
                   [(''beta'', beta),
                    (''risk_free_rate'', default_risk_free_rate settings * 100),
                    (''market_risk_premium'', default_market_risk_premium settings * 100),
                    (''tax_rate'', tax_rate * 100),
                    (''cost_of_debt_pretax'', cod * 100),
                    (''equity_weight'', equity_weight * 100),
                    (''debt_weight'', debt_weight * 100)] \<rparr>)"

subsection \<open>Vocabulary of the specification\<close>

text \<open>The last \<open>min(3, n)\<close> values of a sequence, as the specification names the tail.\<close>

definition tail3 :: "real list \<Rightarrow> real list" where
  "tail3 vs = drop (length vs - min 3 (length vs)) vs"

text \<open>
  The order of a peer ranking: descending values when higher is better, ascending
  otherwise.
\<close>

definition ranks_before :: "bool \<Rightarrow> real \<Rightarrow> real \<Rightarrow> bool" where
  "ranks_before higher_is_better a b = (if higher_is_better then a > b else a < b)"

text \<open>
  The same order on the pairs of \<^verbatim>\<open>enumerate(values)\<close>, with equal values ordered by
  their position in the input.
\<close>

definition rank_order :: "bool \<Rightarrow> nat \<times> real \<Rightarrow> nat \<times> real \<Rightarrow> bool" where
  "rank_order hib a b =
     (ranks_before hib (snd a) (snd b) \<or> (snd a = snd b \<and> fst a < fst b))"

text \<open>
  The peers a factor request works on: the codes given when there are at least three,
  otherwise up to twenty other stocks of the store, each kept when its snapshot loads.
\<close>

definition loaded_peers ::
  "DataLoader \<Rightarrow> string \<Rightarrow> string \<Rightarrow> string list option \<Rightarrow> FinancialSnapshot list" where
  "loaded_peers dl code period peer_stocks =
     List.map_filter (\<lambda>peer_code. load_snapshot dl peer_code period)
       (if peer_stocks = None \<or> length (the peer_stocks) < 3
        then take 20 (filter (\<lambda>s. s \<noteq> code) (list_all_stocks dl))
        else the peer_stocks)"

subsection \<open>Concrete inputs\<close>

definition low_signal :: EarlyWarningSignal where
  "low_signal = \<lparr> signal_name = ''Watch item'', severity = ''low'', current_value = 1,
     threshold_value = 2, description = ''Below every threshold'' \<rparr>"

definition medium_signal :: EarlyWarningSignal where
  "medium_signal = \<lparr> signal_name = ''Inventory Buildup'', severity = ''medium'',
     current_value = 35, threshold_value = 25, description = ''Inventory ahead of revenue'' \<rparr>"

definition critical_signal :: EarlyWarningSignal where
  "critical_signal = \<lparr> signal_name = ''High Leverage'', severity = ''critical'',
     current_value = 85, threshold_value = 70, description = ''Debt ratio above 80%'' \<rparr>"

text \<open>
  Three peers that differ from the test snapshot in operating income and report no
  positive earnings per share, and a store holding the four companies for 2023Q3.
\<close>

definition peer_a :: FinancialSnapshot where
  "peer_a = tsmc\<lparr> stock_code := ''1101'', company_name := ''Peer A'',
     operating_income := 200000, eps := - 1 \<rparr>"

definition peer_b :: FinancialSnapshot where
  "peer_b = tsmc\<lparr> stock_code := ''1216'', company_name := ''Peer B'',
     operating_income := 200000, eps := 0 \<rparr>"

definition peer_c :: FinancialSnapshot where
  "peer_c = tsmc\<lparr> stock_code := ''2002'', company_name := ''Peer C'',
     operating_income := 200000, eps := - 5 / 2 \<rparr>"

definition example_store :: DataLoader where
  "example_store =
     \<lparr> load_snapshot = (\<lambda>code period.
          if period = ''2023Q3''
          then map_of [(''2330'', tsmc), (''1101'', peer_a), (''1216'', peer_b),
                       (''2002'', peer_c)] code
          else None),
       list_available_periods = (\<lambda>code.
          if code \<in> set [''1101'', ''1216'', ''2002'', ''2330''] then [''2023Q3''] else []),
       list_all_stocks = [''1101'', ''1216'', ''2002'', ''2330''] \<rparr>"

section \<open>Verified properties\<close>

subsection \<open>Composite totals\<close>

text \<open>
  C1. For every ManagementScore and every EarningsQualityScore that passes validation
  (each of the four components in [0,100]), the derived total is the unweighted mean
  of the four components, (c1+c2+c3+c4)/4. The weights are constants of the code, and
  the total is a function of the four components alone: no other field of the record
  (commentary, details, red flags) can change it.
\<close>

theorem total_is_mean_of_components:
  assumes "ManagementScore_new t b i g c d = Inr m"
      and "EarningsQualityScore_new a w od e r c2 d2 = Inr q"
  shows "ManagementScore_total m = (t + b + i + g) / 4
       \<and> ManagementScore_total m
            = (tenure_stability m + board_independence m + insider_alignment m
                + governance_red_flags m) / 4
       \<and> ManagementScore_total
            (m\<lparr>ManagementScore.commentary := c', ManagementScore.details := d'\<rparr>)
            = ManagementScore_total m
       \<and> EarningsQualityScore_total q = (a + w + od + e) / 4
       \<and> EarningsQualityScore_total q
            = (accrual_quality q + working_capital_behavior q + one_off_dependency q
                + earnings_stability q) / 4
       \<and> EarningsQualityScore_total
            (q\<lparr>red_flags := r', EarningsQualityScore.commentary := c2',
               EarningsQualityScore.details := d2'\<rparr>)
            = EarningsQualityScore_total q"
  using assms
  by (auto simp: ManagementScore_new_def ManagementScore_total_def
      EarningsQualityScore_new_def EarningsQualityScore_total_def split: if_splits)

theorem total_is_mean_of_components_witness:
  "ManagementScore_new 80 70 60 90 ''Test'' [] =
     Inr \<lparr> tenure_stability = 80, board_independence = 70, insider_alignment = 60,
           governance_red_flags = 90, commentary = ''Test'', details = [] \<rparr>
   \<and> EarningsQualityScore_new 75 80 70 85 [] ''Test'' [] =
     Inr \<lparr> accrual_quality = 75, working_capital_behavior = 80, one_off_dependency = 70,
           earnings_stability = 85, red_flags = [], commentary = ''Test'', details = [] \<rparr>
   \<and> ManagementScore_total
       \<lparr> tenure_stability = 80, board_independence = 70, insider_alignment = 60,
         governance_red_flags = 90, commentary = ''Test'', details = [] \<rparr> = 75
   \<and> EarningsQualityScore_total
       \<lparr> accrual_quality = 75, working_capital_behavior = 80, one_off_dependency = 70,
         earnings_stability = 85, red_flags = [], commentary = ''Test'', details = [] \<rparr>
       = 77.5"
proof -
  have m: "ManagementScore_new 80 70 60 90 ''Test'' [] =
     Inr \<lparr> tenure_stability = 80, board_independence = 70, insider_alignment = 60,
           governance_red_flags = 90, commentary = ''Test'', details = [] \<rparr>"
    by (simp add: ManagementScore_new_def in_score_range_def)
  have q: "EarningsQualityScore_new 75 80 70 85 [] ''Test'' [] =
     Inr \<lparr> accrual_quality = 75, working_capital_behavior = 80, one_off_dependency = 70,
           earnings_stability = 85, red_flags = [], commentary = ''Test'', details = [] \<rparr>"
    by (simp add: EarningsQualityScore_new_def in_score_range_def)
  from total_is_mean_of_components [OF m q] m q show ?thesis by simp
qed

subsection \<open>Current ratio\<close>

lemma current_ratio_value:
  "current_ratio s = Some r \<Longrightarrow>
     r = the (current_assets s) / the (current_liabilities s)"
  by (auto simp: current_ratio_def split: if_splits)

lemma current_ratio_none_iff:
  "current_ratio s = None \<longleftrightarrow>
     current_assets s = None \<or> current_assets s = Some 0
     \<or> current_liabilities s = None \<or> current_liabilities s = Some 0"
  by (cases "current_assets s"; cases "current_liabilities s") (auto simp: current_ratio_def)

text \<open>
  C9. The claim asks for a numeric current ratio whenever both current fields are present
  and current liabilities are not zero, also when current assets are zero. The property
  tests the fields by truthiness, so for current assets 0 and current liabilities 100
  it returns \<^verbatim>\<open>None\<close> where the claim asks for 0 / 100 = 0.
\<close>

theorem current_ratio_zero_assets_is_none:
  "current_assets (tsmc\<lparr>current_assets := Some 0, current_liabilities := Some 100\<rparr>) = Some 0
   \<and> current_liabilities (tsmc\<lparr>current_assets := Some 0, current_liabilities := Some 100\<rparr>)
       = Some 100
   \<and> current_ratio (tsmc\<lparr>current_assets := Some 0, current_liabilities := Some 100\<rparr>) = None"
  by (simp add: current_ratio_def)

subsection \<open>Early-warning aggregation\<close>

lemma filter_nonempty_iff: "0 < length (filter P xs) \<longleftrightarrow> (\<exists>x \<in> set xs. P x)"
  by (simp add: filter_empty_conv)

lemma check_severities:
  "\<forall>s \<in> set (check_receivables_spike st cur hist). severity s = ''medium''"
  "\<forall>s \<in> set (check_inventory_spike st cur hist). severity s = ''medium''"
  "\<forall>s \<in> set (check_margin_compression st cur hist). severity s \<in> {''medium'', ''high''}"
  "\<forall>s \<in> set (check_leverage_deterioration st cur). severity s \<in> {''high'', ''critical''}"
  "\<forall>s \<in> set (check_cash_burn cur hist). severity s \<in> {''medium'', ''high''}"
  "\<forall>s \<in> set (check_negative_cash_flow cur). severity s = ''high''"
  by (simp_all add: check_receivables_spike_def check_inventory_spike_def
      check_margin_compression_def check_leverage_deterioration_def check_cash_burn_def
      check_negative_cash_flow_def Let_def)

lemma detect_warnings_result:
  assumes "detect_warnings dl st code period hp = Some w"
  shows "(\<forall>s \<in> set (triggered_signals w). severity s \<in> {''medium'', ''high'', ''critical''})
       \<and> warning_level w = determine_warning_level (triggered_signals w)"
proof -
  from assms obtain cur hist where
    sig: "triggered_signals w =
            check_receivables_spike st cur hist @ check_inventory_spike st cur hist
            @ check_margin_compression st cur hist @ check_leverage_deterioration st cur
            @ check_cash_burn cur hist @ check_negative_cash_flow cur"
    and lvl: "warning_level w = determine_warning_level (triggered_signals w)"
    by (auto simp: detect_warnings_def Let_def split: option.splits)
  have "severity s \<in> {''medium'', ''high'', ''critical''}" if "s \<in> set (triggered_signals w)" for s
    using that check_severities(1,2,3) [of st cur hist] check_severities(4) [of st cur]
      check_severities(5) [of cur hist] check_severities(6) [of cur]
    unfolding sig by auto
  with lvl show ?thesis by blast
qed

lemma detect_warnings_example:
  "detect_warnings example_store get_settings ''2330'' ''2023Q3'' None =
     Some \<lparr> warning_level = ''none'', triggered_signals = [],
            recommendation = ''No significant concerns. Maintain current monitoring cadence.'',
            commentary = ''No early warning signals detected. Financial health appears stable.'' \<rparr>"
proof -
  have h: "load_multiple_periods example_store ''2330'' [] = []"
    by (simp add: load_multiple_periods_def map_filter_simps)
  have l: "load_snapshot example_store ''2330'' ''2023Q3'' = Some tsmc"
    "list_available_periods example_store ''2330'' = [''2023Q3'']"
    by (simp_all add: example_store_def)
  have lev: "check_leverage_deterioration get_settings tsmc = []"
    by (simp add: check_leverage_deterioration_def debt_ratio_def tsmc_def get_settings_def Let_def)
  have ncf: "check_negative_cash_flow tsmc = []"
    by (simp add: check_negative_cash_flow_def tsmc_def)
  have e: "check_receivables_spike get_settings tsmc [] = []"
    "check_inventory_spike get_settings tsmc [] = []"
    "check_margin_compression get_settings tsmc [] = []"
    "check_cash_burn tsmc [] = []"
    by (simp_all add: check_receivables_spike_def check_inventory_spike_def
        check_margin_compression_def check_cash_burn_def)
  show ?thesis
    unfolding detect_warnings_def l option.case Let_def
    by (simp add: h lev ncf e determine_warning_level_def generate_recommendations_def
        EarlyWarningService_generate_commentary_def)
qed

text \<open>
  C2. For a list of signals whose severities are all medium, high or critical, the
  overall level is critical if any signal is critical, else high if at least one is
  high, else medium if at least three are medium, else low if at least one is medium,
  and none when there is no signal. Inserting a critical signal anywhere into a list
  always yields critical. The six detection rules emit no other severity, and the
  level \<^verbatim>\<open>detect_warnings\<close> reports is this reduction of the signals it returns.
\<close>

theorem warning_level_reduction:
  assumes "\<forall>s \<in> set signals. severity s \<in> {''medium'', ''high'', ''critical''}"
  shows "determine_warning_level signals =
          (if \<exists>s \<in> set signals. severity s = ''critical'' then ''critical''
           else if 1 \<le> length (filter (\<lambda>s. severity s = ''high'') signals) then ''high''
           else if 3 \<le> length (filter (\<lambda>s. severity s = ''medium'') signals) then ''medium''
           else if 1 \<le> length (filter (\<lambda>s. severity s = ''medium'') signals) then ''low''
           else ''none'')
       \<and> (signals = [] \<longrightarrow> determine_warning_level signals = ''none'')
       \<and> (\<forall>c before after. severity c = ''critical'' \<and> signals = before @ after
            \<longrightarrow> determine_warning_level (before @ c # after) = ''critical'')
       \<and> (detect_warnings dl settings code period historical_periods = Some w \<longrightarrow>
            (\<forall>s \<in> set (triggered_signals w).
                severity s \<in> {''medium'', ''high'', ''critical''})
            \<and> warning_level w = determine_warning_level (triggered_signals w))"
proof -
  have crit: "0 < length (filter (\<lambda>s. severity s = ''critical'') signals)
      \<longleftrightarrow> (\<exists>s \<in> set signals. severity s = ''critical'')"
    by (rule filter_nonempty_iff)
  have none_left: "signals = []"
    if "\<forall>s \<in> set signals. severity s \<noteq> ''critical''"
      and "\<forall>s \<in> set signals. severity s \<noteq> ''high''"
      and "\<forall>s \<in> set signals. severity s \<noteq> ''medium''"
  proof (cases signals)
    case Nil then show ?thesis .
  next
    case (Cons x xs)
    with assms have "severity x \<in> {''medium'', ''high'', ''critical''}" by simp
    with that Cons show ?thesis by auto
  qed
  have first: "determine_warning_level signals =
          (if \<exists>s \<in> set signals. severity s = ''critical'' then ''critical''
           else if 1 \<le> length (filter (\<lambda>s. severity s = ''high'') signals) then ''high''
           else if 3 \<le> length (filter (\<lambda>s. severity s = ''medium'') signals) then ''medium''
           else if 1 \<le> length (filter (\<lambda>s. severity s = ''medium'') signals) then ''low''
           else ''none'')"
  proof (cases "signals = []")
    case True then show ?thesis by (simp add: determine_warning_level_def)
  next
    case False
    with none_left show ?thesis
      unfolding determine_warning_level_def Let_def crit
      by (auto simp: Suc_le_eq filter_empty_conv)
  qed
  have mono: "determine_warning_level (before @ c # after) = ''critical''"
    if "severity c = ''critical''" for c before after
    using that by (simp add: determine_warning_level_def)
  have emp: "signals = [] \<longrightarrow> determine_warning_level signals = ''none''"
    by (simp add: determine_warning_level_def)
  have battery: "detect_warnings dl settings code period historical_periods = Some w \<longrightarrow>
            (\<forall>s \<in> set (triggered_signals w).
                severity s \<in> {''medium'', ''high'', ''critical''})
            \<and> warning_level w = determine_warning_level (triggered_signals w)"
    using detect_warnings_result by blast
  from first emp mono battery show ?thesis by blast
qed

theorem warning_level_reduction_witness:
  "severity medium_signal = ''medium''
   \<and> determine_warning_level [medium_signal, medium_signal, medium_signal] = ''medium''
   \<and> severity critical_signal = ''critical''
   \<and> determine_warning_level [medium_signal, critical_signal, medium_signal, medium_signal]
       = ''critical''
   \<and> (\<exists>w. detect_warnings example_store get_settings ''2330'' ''2023Q3'' None = Some w
          \<and> triggered_signals w = [] \<and> warning_level w = ''none'')"
proof -
  have h: "\<forall>s \<in> set [medium_signal, medium_signal, medium_signal].
      severity s \<in> {''medium'', ''high'', ''critical''}"
    by (simp add: medium_signal_def)
  have c: "severity critical_signal = ''critical''" by (simp add: critical_signal_def)
  from warning_level_reduction [OF h] have
    a: "determine_warning_level [medium_signal, medium_signal, medium_signal] = ''medium''"
    and b: "\<forall>c before after. severity c = ''critical''
          \<and> [medium_signal, medium_signal, medium_signal] = before @ after
          \<longrightarrow> determine_warning_level (before @ c # after) = ''critical''"
    by (simp_all add: medium_signal_def)
  from b [rule_format, of critical_signal "[medium_signal]" "[medium_signal, medium_signal]"] c
  have d: "determine_warning_level [medium_signal, critical_signal, medium_signal, medium_signal]
       = ''critical''" by simp
  have m: "severity medium_signal = ''medium''" by (simp add: medium_signal_def)
  have e: "\<exists>w. detect_warnings example_store get_settings ''2330'' ''2023Q3'' None = Some w
          \<and> triggered_signals w = [] \<and> warning_level w = ''none''"
    by (simp add: detect_warnings_example)
  from m a c d e show ?thesis by blast
qed

text \<open>
  C10. The aggregator answers \<^verbatim>\<open>none\<close> exactly for the empty signal list; a non-empty
  list with no critical, high or medium signal (for instance only low ones) falls
  through to \<^verbatim>\<open>low\<close>.
\<close>

theorem warning_level_none_iff_empty:
  "(determine_warning_level signals = ''none'' \<longleftrightarrow> signals = [])
   \<and> (signals \<noteq> []
        \<and> (\<forall>s \<in> set signals. severity s \<notin> {''critical'', ''high'', ''medium''})
      \<longrightarrow> determine_warning_level signals = ''low'')"
proof -
  have "\<forall>s \<in> set signals. severity s \<notin> {''critical'', ''high'', ''medium''} \<Longrightarrow>
    filter (\<lambda>s. severity s = ''critical'') signals = []
    \<and> filter (\<lambda>s. severity s = ''high'') signals = []
    \<and> filter (\<lambda>s. severity s = ''medium'') signals = []"
    by (auto simp: filter_empty_conv)
  then show ?thesis
    by (auto simp: determine_warning_level_def Let_def)
qed

theorem warning_level_none_iff_empty_witness:
  "[low_signal] \<noteq> []
   \<and> severity low_signal = ''low''
   \<and> determine_warning_level [low_signal] = ''low''
   \<and> determine_warning_level [low_signal] \<noteq> ''none''"
  using warning_level_none_iff_empty [of "[low_signal]"]
  by (simp add: low_signal_def)

subsection \<open>Trend classifier\<close>

lemma list_all_adjacent:
  "list_all (\<lambda>i. P (xs ! (i - 1)) (xs ! i)) [1..<length xs]
     \<longleftrightarrow> (\<forall>i. Suc i < length xs \<longrightarrow> P (xs ! i) (xs ! Suc i))"
proof -
  have "(\<forall>i\<in>{1..<length xs}. P (xs ! (i - 1)) (xs ! i))
      \<longleftrightarrow> (\<forall>i. Suc i < length xs \<longrightarrow> P (xs ! i) (xs ! Suc i))"
  proof (intro iffI allI impI ballI)
    fix i assume h: "\<forall>i\<in>{1..<length xs}. P (xs ! (i - 1)) (xs ! i)" and "Suc i < length xs"
    then have "Suc i \<in> {1..<length xs}" by simp
    with h have "P (xs ! (Suc i - 1)) (xs ! Suc i)" by blast
    then show "P (xs ! i) (xs ! Suc i)" by simp
  next
    fix i assume h: "\<forall>i. Suc i < length xs \<longrightarrow> P (xs ! i) (xs ! Suc i)"
      and i: "i \<in> {1..<length xs}"
    then obtain k where k: "i = Suc k" by (cases i) auto
    with h i show "P (xs ! (i - 1)) (xs ! i)" by simp
  qed
  then show ?thesis by (simp add: list_all_iff)
qed

lemma all_adjacent_sorted_wrt:
  fixes xs :: "real list"
  shows "list_all (\<lambda>i. xs ! i > xs ! (i - 1)) [1..<length xs] \<longleftrightarrow> sorted_wrt (<) xs"
    and "list_all (\<lambda>i. xs ! i < xs ! (i - 1)) [1..<length xs] \<longleftrightarrow> sorted_wrt (>) xs"
proof -
  have t1: "transp ((<) :: real \<Rightarrow> real \<Rightarrow> bool)" by (simp add: transp_def)
  have t2: "transp ((>) :: real \<Rightarrow> real \<Rightarrow> bool)" by (auto simp: transp_def)
  show "list_all (\<lambda>i. xs ! i > xs ! (i - 1)) [1..<length xs] \<longleftrightarrow> sorted_wrt (<) xs"
    unfolding sorted_wrt_iff_nth_Suc_transp [OF t1] by (rule list_all_adjacent)
  show "list_all (\<lambda>i. xs ! i < xs ! (i - 1)) [1..<length xs] \<longleftrightarrow> sorted_wrt (>) xs"
    unfolding sorted_wrt_iff_nth_Suc_transp [OF t2] by (rule list_all_adjacent)
qed

lemma not_both_monotone:
  fixes xs :: "real list"
  assumes "length xs \<ge> 2"
  shows "\<not> (sorted_wrt (<) xs \<and> sorted_wrt (>) xs)"
proof -
  from assms obtain a b zs where "xs = a # b # zs"
    by (cases xs; cases "tl xs") auto
  then show ?thesis by auto
qed

text \<open>
  C3. For a sequence of at least two values the direction depends only on the last
  \<open>min(3, n)\<close> values: it is \<^verbatim>\<open>improving\<close> exactly when that tail is strictly increasing,
  \<^verbatim>\<open>declining\<close> exactly when it is strictly decreasing and \<^verbatim>\<open>stable\<close> otherwise;
  [10,20,30] is improving, [30,20,10] declining and [10,20,15] stable.
\<close>

theorem trend_direction_from_tail:
  assumes "length (TrendMetric.values m) \<ge> 2"
  shows "(trend_direction m = ''improving'' \<longleftrightarrow> sorted_wrt (<) (tail3 (TrendMetric.values m)))
       \<and> (trend_direction m = ''declining'' \<longleftrightarrow> sorted_wrt (>) (tail3 (TrendMetric.values m)))
       \<and> (trend_direction m = ''stable'' \<longleftrightarrow>
            \<not> sorted_wrt (<) (tail3 (TrendMetric.values m))
            \<and> \<not> sorted_wrt (>) (tail3 (TrendMetric.values m)))
       \<and> length (tail3 (TrendMetric.values m)) = min 3 (length (TrendMetric.values m))
       \<and> trend_direction \<lparr> TrendMetric.metric_name = nm, periods = ps, values = [10, 20, 30] \<rparr> = ''improving''
       \<and> trend_direction \<lparr> TrendMetric.metric_name = nm, periods = ps, values = [30, 20, 10] \<rparr> = ''declining''
       \<and> trend_direction \<lparr> TrendMetric.metric_name = nm, periods = ps, values = [10, 20, 15] \<rparr> = ''stable''"
proof -
  let ?vs = "TrendMetric.values m"
  have tl: "tail3 ?vs = (if length ?vs \<ge> 3 then drop (length ?vs - 3) ?vs else ?vs)"
    by (simp add: tail3_def min_def)
  have len: "length (tail3 ?vs) \<ge> 2" using assms by (simp add: tail3_def min_def)
  have td: "trend_direction m =
      (if sorted_wrt (<) (tail3 ?vs) then ''improving''
       else if sorted_wrt (>) (tail3 ?vs) then ''declining'' else ''stable'')"
    using assms unfolding trend_direction_def Let_def tl [symmetric] all_adjacent_sorted_wrt
    by simp
  have ex: "trend_direction \<lparr> TrendMetric.metric_name = nm, periods = ps, values = [10, 20, 30] \<rparr> = ''improving''"
    "trend_direction \<lparr> TrendMetric.metric_name = nm, periods = ps, values = [30, 20, 10] \<rparr> = ''declining''"
    "trend_direction \<lparr> TrendMetric.metric_name = nm, periods = ps, values = [10, 20, 15] \<rparr> = ''stable''"
    unfolding trend_direction_def Let_def all_adjacent_sorted_wrt by simp_all
  from td not_both_monotone [OF len] ex show ?thesis
    by (auto simp: tail3_def)
qed

theorem trend_direction_from_tail_witness:
  "length (TrendMetric.values
      \<lparr> TrendMetric.metric_name = ''EPS'', periods = [''Q1'', ''Q2'', ''Q3'', ''Q4''],
        values = [50, 10, 20, 30] \<rparr>) \<ge> 2
   \<and> tail3 [50, 10, 20, 30] = [10, 20, 30]
   \<and> trend_direction
      \<lparr> TrendMetric.metric_name = ''EPS'', periods = [''Q1'', ''Q2'', ''Q3'', ''Q4''],
        values = [50, 10, 20, 30] \<rparr> = ''improving''"
  using trend_direction_from_tail
    [of "\<lparr> TrendMetric.metric_name = ''EPS'', periods = [''Q1'', ''Q2'', ''Q3'', ''Q4''],
          values = [50, 10, 20, 30] \<rparr>"]
  by (simp add: tail3_def)

text \<open>
  C7. \<^verbatim>\<open>yoy_change\<close> is \<^verbatim>\<open>None\<close> for fewer than four values. With exactly four values
  the reference is the fourth value from the end (the oldest one), with five or more it
  is the fifth value from the end; the result is the percentage change of the latest
  value against that reference, and \<^verbatim>\<open>None\<close> when the reference is 0.
\<close>

theorem yoy_change_reference:
  "(length (TrendMetric.values m) < 4 \<longrightarrow> yoy_change m = None)
   \<and> yoy_change \<lparr> TrendMetric.metric_name = nm, periods = ps, values = [a, b, c, d] \<rparr>
       = (if a = 0 then None else Some ((d - a) / a * 100))
   \<and> yoy_change \<lparr> TrendMetric.metric_name = nm, periods = ps, values = pre @ [e, a, b, c, d] \<rparr>
       = (if e = 0 then None else Some ((d - e) / e * 100))"
  by (simp add: yoy_change_def Let_def nth_append)

theorem yoy_change_reference_witness:
  "length (TrendMetric.values
      \<lparr> TrendMetric.metric_name = ''EPS'', periods = [''Q1'', ''Q2'', ''Q3''],
        values = [1, 2, 3] \<rparr>) < 4
   \<and> yoy_change
      \<lparr> TrendMetric.metric_name = ''EPS'', periods = [''Q1'', ''Q2'', ''Q3''],
        values = [1, 2, 3] \<rparr> = None"
  using yoy_change_reference
    [of "\<lparr> TrendMetric.metric_name = ''EPS'', periods = [''Q1'', ''Q2'', ''Q3''],
          values = [1, 2, 3] \<rparr>"]
  by simp

subsection \<open>Cost of capital\<close>

lemma py_round_exact: "py_round (of_int k / 100) 2 = of_int k / 100"
  by (simp add: py_round_def round_half_even_def Let_def)

text \<open>
  C6. With \<open>t\<close> the tax rate in force (the argument, or the default of the settings),
  NOPAT is operating income times \<open>1 - t\<close>, invested capital is equity plus total
  liabilities, and ROIC is NOPAT / invested capital times 100, or 0 when invested
  capital is 0; NOPAT 100000 on invested capital 1000000 gives 10. The analysis
  returned holds these figures rounded to two decimals, and on it the value-creation
  gap is \<open>roic - wacc\<close> and \<open>is_value_creating\<close> holds exactly when \<open>roic > wacc\<close>, that is
  when the gap is positive; both are functions of the two stored fields.
\<close>

theorem roic_and_value_creation:
  assumes "load_snapshot dl code period = Some s"
      and "t = (case tax_rate of None \<Rightarrow> default_tax_rate settings | Some r \<Rightarrow> r)"
  shows "calculate_nopat s t = operating_income s * (1 - t)
       \<and> calculate_invested_capital s = equity s + total_liabilities s
       \<and> safe_divide (calculate_nopat s t) (calculate_invested_capital s) 0 * 100
           = (if equity s + total_liabilities s = 0 then 0
              else operating_income s * (1 - t) / (equity s + total_liabilities s) * 100)
       \<and> safe_divide 100000 1000000 0 * 100 = 10
       \<and> (\<exists>a. analyze dl settings code period beta cod tax_rate = Some a
             \<and> nopat a = py_round (operating_income s * (1 - t)) 2
             \<and> invested_capital a = py_round (equity s + total_liabilities s) 2
             \<and> roic a
                 = py_round (if equity s + total_liabilities s = 0 then 0
                     else operating_income s * (1 - t) / (equity s + total_liabilities s) * 100) 2
             \<and> value_creation_gap a = roic a - wacc a
             \<and> (is_value_creating a \<longleftrightarrow> roic a > wacc a)
             \<and> (is_value_creating a \<longleftrightarrow> value_creation_gap a > 0))"
  using assms
  by (simp add: calculate_nopat_def calculate_invested_capital_def safe_divide_def
      analyze_def Let_def value_creation_gap_def is_value_creating_def)

theorem roic_and_value_creation_witness:
  "load_snapshot example_store ''2330'' ''2023Q3'' = Some tsmc
   \<and> (\<exists>a. analyze example_store get_settings ''2330'' ''2023Q3'' None None None = Some a
         \<and> nopat a = 240000 \<and> invested_capital a = 5000000 \<and> roic a = 4.8
         \<and> value_creation_gap a = roic a - wacc a
         \<and> (is_value_creating a \<longleftrightarrow> roic a > wacc a))"
proof -
  have l: "load_snapshot example_store ''2330'' ''2023Q3'' = Some tsmc"
    by (simp add: example_store_def)
  have t: "(2 / 10 :: real)
      = (case None of None \<Rightarrow> default_tax_rate get_settings | Some r \<Rightarrow> r)"
    by (simp add: get_settings_def)
  have r1: "py_round 240000 2 = 240000" using py_round_exact [of 24000000] by simp
  have r2: "py_round 5000000 2 = 5000000" using py_round_exact [of 500000000] by simp
  have r3: "py_round (24 / 5) 2 = 24 / 5" using py_round_exact [of 480] by simp
  note th = roic_and_value_creation [OF l t, of None None]
  from th [THEN conjunct2, THEN conjunct2, THEN conjunct2, THEN conjunct2]
  obtain a where a: "analyze example_store get_settings ''2330'' ''2023Q3'' None None None = Some a"
    and n: "nopat a = py_round (operating_income tsmc * (1 - 2 / 10)) 2"
    and i: "invested_capital a = py_round (equity tsmc + total_liabilities tsmc) 2"
    and r: "roic a = py_round (if equity tsmc + total_liabilities tsmc = 0 then 0
              else operating_income tsmc * (1 - 2 / 10)
                     / (equity tsmc + total_liabilities tsmc) * 100) 2"
    and g: "value_creation_gap a = roic a - wacc a"
    and v: "is_value_creating a \<longleftrightarrow> roic a > wacc a"
    by (elim exE conjE)
  from n have n': "nopat a = 240000" by (simp add: tsmc_def r1)
  from i have i': "invested_capital a = 5000000" by (simp add: tsmc_def r2)
  from r have r': "roic a = 4.8" by (simp add: tsmc_def r3)
  from l a n' i' r' g v show ?thesis by simp
qed

subsection \<open>Peer factor z-scores\<close>

lemma quality_score_peers:
  "quality_score tsmc = 305 / 6" "quality_score peer_a = 115 / 3"
  "quality_score peer_b = 115 / 3" "quality_score peer_c = 115 / 3"
  by (simp_all add: quality_score_def roe_def operating_margin_def debt_ratio_def
      tsmc_def peer_a_def peer_b_def peer_c_def Let_def)

lemma stdev_two_equal: "statistics_stdev [x, x] = Inr 0"
  by (simp add: statistics_stdev_def Let_def)

lemma zero_stdev_pattern:
  assumes "statistics_stdev xs = Inr 0"
  shows "(case statistics_mean xs of Inl e \<Rightarrow> Inl e
          | Inr mu \<Rightarrow>
              (case (if length xs > 1 then statistics_stdev xs else Inr 1) of
                 Inl e \<Rightarrow> Inl e
               | Inr sd \<Rightarrow> Inr (calculate_z_score t mu sd))) = Inr 0"
proof -
  from assms have "length xs \<ge> 2"
    by (auto simp: statistics_stdev_def split: if_splits)
  then have "length xs > 1" "xs \<noteq> []" by auto
  with assms show ?thesis
    by (simp add: statistics_mean_def calculate_z_score_def)
qed

text \<open>
  C4 (amended). No peer factor raises on a single-element peer set or on a peer standard
  deviation of 0, but only the first is treated by substitution: with one peer the
  standard deviation is taken as 1.0 and the z-score is the target's value minus the
  peer's; with a standard deviation of 0 nothing is substituted, \<^verbatim>\<open>calculate_z_score\<close>
  returns 0.0 whatever the distance of the target from the peer mean.
\<close>

theorem z_score_degenerate_peer_sets:
  "calculate_z_score v mu 0 = 0
   \<and> calculate_quality_factor target [p] = Inr (quality_score target - quality_score p)
   \<and> (eps p > 0 \<longrightarrow> calculate_value_factor target [p] = Inr (eps target - eps p))
   \<and> calculate_momentum_factor target [p] = Inr (net_margin target - net_margin p)
   \<and> calculate_size_factor target [p]
       = Inr ((if total_assets target > 0 then ln (total_assets target) else 0)
              - (if total_assets p > 0 then ln (total_assets p) else 0))
   \<and> calculate_volatility_factor target [p] = Inr (debt_ratio target - debt_ratio p)
   \<and> (statistics_stdev (map quality_score peers) = Inr 0
        \<longrightarrow> calculate_quality_factor target peers = Inr 0)
   \<and> (statistics_stdev (map eps (filter (\<lambda>p. eps p > 0) peers)) = Inr 0
        \<longrightarrow> calculate_value_factor target peers = Inr 0)
   \<and> (statistics_stdev (map net_margin peers) = Inr 0
        \<longrightarrow> calculate_momentum_factor target peers = Inr 0)
   \<and> (statistics_stdev
          (map (\<lambda>p. if total_assets p > 0 then ln (total_assets p) else 0) peers) = Inr 0
        \<longrightarrow> calculate_size_factor target peers = Inr 0)
   \<and> (statistics_stdev (map debt_ratio peers) = Inr 0
        \<longrightarrow> calculate_volatility_factor target peers = Inr 0)"
proof -
  have single: "calculate_quality_factor target [p] = Inr (quality_score target - quality_score p)"
    "eps p > 0 \<longrightarrow> calculate_value_factor target [p] = Inr (eps target - eps p)"
    "calculate_momentum_factor target [p] = Inr (net_margin target - net_margin p)"
    "calculate_size_factor target [p]
       = Inr ((if total_assets target > 0 then ln (total_assets target) else 0)
              - (if total_assets p > 0 then ln (total_assets p) else 0))"
    "calculate_volatility_factor target [p] = Inr (debt_ratio target - debt_ratio p)"
    by (simp_all add: calculate_quality_factor_def calculate_value_factor_def
        calculate_momentum_factor_def calculate_size_factor_def
        calculate_volatility_factor_def statistics_mean_def calculate_z_score_def)
  have q: "calculate_quality_factor target peers = Inr 0"
    if "statistics_stdev (map quality_score peers) = Inr 0"
    unfolding calculate_quality_factor_def Let_def by (rule zero_stdev_pattern [OF that])
  have m: "calculate_momentum_factor target peers = Inr 0"
    if "statistics_stdev (map net_margin peers) = Inr 0"
    unfolding calculate_momentum_factor_def Let_def by (rule zero_stdev_pattern [OF that])
  have sz: "calculate_size_factor target peers = Inr 0"
    if "statistics_stdev
          (map (\<lambda>p. if total_assets p > 0 then ln (total_assets p) else 0) peers) = Inr 0"
    unfolding calculate_size_factor_def Let_def by (rule zero_stdev_pattern [OF that])
  have vol: "calculate_volatility_factor target peers = Inr 0"
    if "statistics_stdev (map debt_ratio peers) = Inr 0"
    unfolding calculate_volatility_factor_def Let_def by (rule zero_stdev_pattern [OF that])
  have v: "calculate_value_factor target peers = Inr 0"
    if "statistics_stdev (map eps (filter (\<lambda>p. eps p > 0) peers)) = Inr 0"
    unfolding calculate_value_factor_def Let_def
    using zero_stdev_pattern [OF that, of "eps target"] by simp
  have z: "calculate_z_score v mu 0 = 0" by (simp add: calculate_z_score_def)
  from z single q v m sz vol show ?thesis by blast
qed

theorem z_score_degenerate_peer_sets_witness:
  "eps tsmc > 0
   \<and> calculate_value_factor peer_a [tsmc] = Inr (- 1 - 193 / 20)
   \<and> statistics_stdev (map quality_score [peer_a, peer_b]) = Inr 0
   \<and> calculate_quality_factor tsmc [peer_a, peer_b] = Inr 0"
proof -
  have e: "eps tsmc > 0" by (simp add: tsmc_def)
  have s: "statistics_stdev (map quality_score [peer_a, peer_b]) = Inr 0"
    by (simp add: quality_score_peers stdev_two_equal)
  note th = z_score_degenerate_peer_sets [of _ _ peer_a tsmc "[peer_a, peer_b]"]
  from th e have "calculate_value_factor peer_a [tsmc] = Inr (eps peer_a - eps tsmc)" by blast
  then have v: "calculate_value_factor peer_a [tsmc] = Inr (- 1 - 193 / 20)"
    by (simp add: tsmc_def peer_a_def)
  from z_score_degenerate_peer_sets [of _ _ tsmc tsmc "[peer_a, peer_b]"] s
  have q: "calculate_quality_factor tsmc [peer_a, peer_b] = Inr 0" by blast
  from e v s q show ?thesis by blast
qed

text \<open>
  The claim as written fails for two peers with the same quality score 115/3 and a
  target scoring 305/6: the claim gives (305/6 - 115/3) / 1.0 = 12.5, the code 0.0.
\<close>

theorem zero_stdev_gives_zero_not_difference:
  "statistics_stdev (map quality_score [peer_a, peer_b]) = Inr 0
   \<and> statistics_mean (map quality_score [peer_a, peer_b]) = Inr (115 / 3)
   \<and> quality_score tsmc = 305 / 6
   \<and> calculate_quality_factor tsmc [peer_a, peer_b] = Inr 0
   \<and> calculate_quality_factor tsmc [peer_a, peer_b] \<noteq> Inr ((305 / 6 - 115 / 3) / 1)"
proof -
  have s: "statistics_stdev (map quality_score [peer_a, peer_b]) = Inr 0"
    by (simp add: quality_score_peers stdev_two_equal)
  have mu: "statistics_mean (map quality_score [peer_a, peer_b]) = Inr (115 / 3)"
    by (simp add: quality_score_peers statistics_mean_def)
  have q: "calculate_quality_factor tsmc [peer_a, peer_b] = Inr 0"
    unfolding calculate_quality_factor_def Let_def by (rule zero_stdev_pattern [OF s])
  from s mu q quality_score_peers(1) show ?thesis by simp
qed

subsection \<open>Factor exposures\<close>

lemma quality_factor_returns:
  "peers \<noteq> [] \<Longrightarrow> \<exists>z. calculate_quality_factor t peers = Inr z"
  by (auto simp: calculate_quality_factor_def statistics_mean_def statistics_stdev_def Let_def)

lemma value_factor_returns: "\<exists>z. calculate_value_factor t peers = Inr z"
  by (auto simp: calculate_value_factor_def statistics_mean_def statistics_stdev_def Let_def)

lemma momentum_factor_returns:
  "peers \<noteq> [] \<Longrightarrow> \<exists>z. calculate_momentum_factor t peers = Inr z"
  by (auto simp: calculate_momentum_factor_def statistics_mean_def statistics_stdev_def Let_def)

lemma size_factor_returns:
  "peers \<noteq> [] \<Longrightarrow> \<exists>z. calculate_size_factor t peers = Inr z"
  by (auto simp: calculate_size_factor_def statistics_mean_def statistics_stdev_def Let_def)

lemma volatility_factor_returns:
  "peers \<noteq> [] \<Longrightarrow> \<exists>z. calculate_volatility_factor t peers = Inr z"
  by (auto simp: calculate_volatility_factor_def statistics_mean_def statistics_stdev_def Let_def)

lemma value_factor_no_usable_peer:
  "filter (\<lambda>p. eps p > 0) peers = [] \<Longrightarrow> calculate_value_factor t peers = Inr 0"
  by (simp add: calculate_value_factor_def)

lemma py_round_zero: "py_round 0 n = 0"
  by (simp add: py_round_def round_half_even_def)

lemma calculate_exposures_unfold:
  "calculate_exposures dl code period ps =
     (case load_snapshot dl code period of None \<Rightarrow> Inr None
      | Some target \<Rightarrow>
          let peers = loaded_peers dl code period ps
          in if length peers < 3 then Inr None
             else
               (case calculate_quality_factor target peers of Inl e \<Rightarrow> Inl e
                | Inr quality_z \<Rightarrow>
               (case calculate_value_factor target peers of Inl e \<Rightarrow> Inl e
                | Inr value_z \<Rightarrow>
                (case calculate_momentum_factor target peers of Inl e \<Rightarrow> Inl e
                 | Inr momentum_z \<Rightarrow>
                 (case calculate_size_factor target peers of Inl e \<Rightarrow> Inl e
                  | Inr size_z \<Rightarrow>
                  (case calculate_volatility_factor target peers of Inl e \<Rightarrow> Inl e
                   | Inr volatility_z \<Rightarrow>
                       Inr (Some
                         \<lparr> fe_quality = py_round quality_z 2,
                           fe_value = py_round value_z 2,
                           fe_momentum = py_round momentum_z 2,
                           fe_size = py_round size_z 2,
                           fe_volatility = py_round volatility_z 2,
                           commentary =
                             FactorService_generate_commentary
                               quality_z value_z momentum_z size_z volatility_z,
                           details =
                             [(''peer_count'', real (length peers)),
                              (''target_roe'', roe target),
                              (''target_total_assets'', total_assets target)] \<rparr>)))))))"
  unfolding calculate_exposures_def loaded_peers_def Let_def by (rule refl)

lemma calculate_exposures_some:
  assumes "load_snapshot dl code period = Some target"
    and "length (loaded_peers dl code period ps) \<ge> 3"
  shows "\<exists>fx q.
     calculate_exposures dl code period ps = Inr (Some fx)
     \<and> calculate_value_factor target (loaded_peers dl code period ps) = Inr q
     \<and> fe_value fx = py_round q 2"
proof -
  let ?peers = "loaded_peers dl code period ps"
  from assms(2) have ne: "?peers \<noteq> []" by auto
  from assms(2) have nl: "\<not> length ?peers < 3" by simp
  obtain q where q: "calculate_quality_factor target ?peers = Inr q"
    using quality_factor_returns [OF ne] by blast
  obtain v where v: "calculate_value_factor target ?peers = Inr v"
    using value_factor_returns by blast
  obtain m where m: "calculate_momentum_factor target ?peers = Inr m"
    using momentum_factor_returns [OF ne] by blast
  obtain sz where sz: "calculate_size_factor target ?peers = Inr sz"
    using size_factor_returns [OF ne] by blast
  obtain vol where vol: "calculate_volatility_factor target ?peers = Inr vol"
    using volatility_factor_returns [OF ne] by blast
  show ?thesis
    unfolding calculate_exposures_unfold assms(1) Let_def option.case if_not_P [OF nl]
      q v m sz vol sum.case
    by simp
qed

lemma example_store_peers:
  "loaded_peers example_store ''2330'' ''2023Q3'' None = [peer_a, peer_b, peer_c]"
  by (simp add: loaded_peers_def example_store_def map_filter_simps)

lemma example_store_target: "load_snapshot example_store ''2330'' ''2023Q3'' = Some tsmc"
  by (simp add: example_store_def)

lemma example_peers_no_positive_eps:
  "filter (\<lambda>p. eps p > 0) [peer_a, peer_b, peer_c] = []"
  by (simp add: peer_a_def peer_b_def peer_c_def)


text \<open>
  C5 (amended). A factor request never raises, and it returns no result exactly when
  the target snapshot is missing or fewer than three peer snapshots load; the peers
  are counted before the Value factor drops those with EPS \<open>\<le> 0\<close>. When no peer with
  positive EPS remains the request still returns its FactorExposures, with a value
  exposure of 0.0.
\<close>

theorem exposures_fail_only_on_loaded_peers:
  "(\<exists>r. calculate_exposures dl code period ps = Inr r)
   \<and> (calculate_exposures dl code period ps = Inr None \<longleftrightarrow>
        load_snapshot dl code period = None
        \<or> length (loaded_peers dl code period ps) < 3)
   \<and> (load_snapshot dl code period \<noteq> None
        \<and> length (loaded_peers dl code period ps) \<ge> 3
        \<and> filter (\<lambda>p. eps p > 0) (loaded_peers dl code period ps) = []
      \<longrightarrow> (\<exists>fx. calculate_exposures dl code period ps = Inr (Some fx) \<and> fe_value fx = 0))"
proof (cases "load_snapshot dl code period")
  case None
  show ?thesis unfolding calculate_exposures_unfold None option.case by simp
next
  case (Some target)
  show ?thesis
  proof (cases "length (loaded_peers dl code period ps) < 3")
    case True
    show ?thesis
      unfolding calculate_exposures_unfold Some Let_def option.case if_P [OF True]
      using True by simp
  next
    case False
    then have ge: "length (loaded_peers dl code period ps) \<ge> 3" by simp
    from calculate_exposures_some [OF Some ge] obtain fx q where
      fx: "calculate_exposures dl code period ps = Inr (Some fx)"
      and q: "calculate_value_factor target (loaded_peers dl code period ps) = Inr q"
      and v: "fe_value fx = py_round q 2" by blast
    have "fe_value fx = 0"
      if "filter (\<lambda>p. eps p > 0) (loaded_peers dl code period ps) = []"
      using value_factor_no_usable_peer [OF that, of target] q v by (simp add: py_round_zero)
    with fx Some False show ?thesis by simp
  qed
qed


lemma stdev_three_equal: "statistics_stdev [x, x, x] = Inr 0"
  by (simp add: statistics_stdev_def Let_def)

lemma mean_three_equal: "statistics_mean [x, x, x] = Inr x"
  by (simp add: statistics_mean_def)

lemma example_peer_figures:
  "net_margin peer_a = 125 / 4" "net_margin peer_b = 125 / 4" "net_margin peer_c = 125 / 4"
  "debt_ratio peer_a = 40" "debt_ratio peer_b = 40" "debt_ratio peer_c = 40"
  "total_assets peer_a = 5000000" "total_assets peer_b = 5000000"
  "total_assets peer_c = 5000000"
  by (simp_all add: net_margin_def debt_ratio_def tsmc_def peer_a_def peer_b_def peer_c_def)

lemma example_factors:
  "calculate_quality_factor tsmc [peer_a, peer_b, peer_c] = Inr 0"
  "calculate_value_factor tsmc [peer_a, peer_b, peer_c] = Inr 0"
  "calculate_momentum_factor tsmc [peer_a, peer_b, peer_c] = Inr 0"
  "calculate_size_factor tsmc [peer_a, peer_b, peer_c] = Inr 0"
  "calculate_volatility_factor tsmc [peer_a, peer_b, peer_c] = Inr 0"
proof -
  show "calculate_quality_factor tsmc [peer_a, peer_b, peer_c] = Inr 0"
    by (simp add: calculate_quality_factor_def quality_score_peers stdev_three_equal
        mean_three_equal calculate_z_score_def)
  show "calculate_value_factor tsmc [peer_a, peer_b, peer_c] = Inr 0"
    by (rule value_factor_no_usable_peer [OF example_peers_no_positive_eps])
  show "calculate_momentum_factor tsmc [peer_a, peer_b, peer_c] = Inr 0"
    by (simp add: calculate_momentum_factor_def example_peer_figures stdev_three_equal
        mean_three_equal calculate_z_score_def)
  show "calculate_size_factor tsmc [peer_a, peer_b, peer_c] = Inr 0"
    by (simp add: calculate_size_factor_def example_peer_figures stdev_three_equal
        mean_three_equal calculate_z_score_def)
  show "calculate_volatility_factor tsmc [peer_a, peer_b, peer_c] = Inr 0"
    by (simp add: calculate_volatility_factor_def example_peer_figures stdev_three_equal
        mean_three_equal calculate_z_score_def)
qed

lemma commentary_all_zero: "FactorService_generate_commentary 0 0 0 0 0 = ''Mid cap.''"
  by (simp add: FactorService_generate_commentary_def upper_char_def lower_char_def)

text \<open>
  The claim as written fails on the example store: three peers load, none has a positive
  EPS, and the request returns exposures instead of failing.
\<close>

theorem three_loss_making_peers_still_scored:
  "loaded_peers example_store ''2330'' ''2023Q3'' None = [peer_a, peer_b, peer_c]
   \<and> length (filter (\<lambda>p. eps p > 0) [peer_a, peer_b, peer_c]) < 3
   \<and> calculate_exposures example_store ''2330'' ''2023Q3'' None =
       Inr (Some \<lparr> fe_quality = 0, fe_value = 0, fe_momentum = 0, fe_size = 0,
                    fe_volatility = 0, commentary = ''Mid cap.'',
                    details = [(''peer_count'', 3), (''target_roe'', 100 / 3),
                               (''target_total_assets'', 5000000)] \<rparr>)
   \<and> calculate_exposures example_store ''2330'' ''2023Q3'' None \<noteq> Inr None"
proof -
  have r: "roe tsmc = 100 / 3" "total_assets tsmc = 5000000"
    by (simp_all add: roe_def tsmc_def Let_def)
  have "calculate_exposures example_store ''2330'' ''2023Q3'' None =
       Inr (Some \<lparr> fe_quality = 0, fe_value = 0, fe_momentum = 0, fe_size = 0,
                    fe_volatility = 0, commentary = ''Mid cap.'',
                    details = [(''peer_count'', 3), (''target_roe'', 100 / 3),
                               (''target_total_assets'', 5000000)] \<rparr>)"
    unfolding calculate_exposures_unfold example_store_target example_store_peers
      Let_def option.case example_factors sum.case py_round_zero commentary_all_zero r
    by simp
  with example_store_peers example_peers_no_positive_eps show ?thesis by simp
qed

theorem exposures_fail_only_on_loaded_peers_witness:
  "load_snapshot example_store ''2330'' ''2023Q3'' \<noteq> None
   \<and> length (loaded_peers example_store ''2330'' ''2023Q3'' None) \<ge> 3
   \<and> filter (\<lambda>p. eps p > 0) (loaded_peers example_store ''2330'' ''2023Q3'' None) = []
   \<and> (\<exists>fx. calculate_exposures example_store ''2330'' ''2023Q3'' None = Inr (Some fx)
          \<and> fe_value fx = 0)
   \<and> load_snapshot example_store ''9999'' ''2023Q3'' = None
   \<and> calculate_exposures example_store ''9999'' ''2023Q3'' None = Inr None"
proof -
  have a: "load_snapshot example_store ''2330'' ''2023Q3'' \<noteq> None"
    by (simp add: example_store_target)
  have b: "length (loaded_peers example_store ''2330'' ''2023Q3'' None) \<ge> 3"
    by (simp add: example_store_peers)
  have c: "filter (\<lambda>p. eps p > 0) (loaded_peers example_store ''2330'' ''2023Q3'' None) = []"
    unfolding example_store_peers by (rule example_peers_no_positive_eps)
  have d: "load_snapshot example_store ''9999'' ''2023Q3'' = None"
    by (simp add: example_store_def)
  from exposures_fail_only_on_loaded_peers [of example_store "''2330''" "''2023Q3''" None] a b c
  have e: "\<exists>fx. calculate_exposures example_store ''2330'' ''2023Q3'' None = Inr (Some fx)
          \<and> fe_value fx = 0" by blast
  from exposures_fail_only_on_loaded_peers [of example_store "''9999''" "''2023Q3''" None] d
  have f: "calculate_exposures example_store ''9999'' ''2023Q3'' None = Inr None" by blast
  from a b c d e f show ?thesis by blast
qed

subsection \<open>Peer comparison\<close>

lemma sorted_wrt_insort_key_lex:
  fixes key :: "'a \<Rightarrow> real"
  assumes "sorted_wrt (\<lambda>a b. key a < key b \<or> (key a = key b \<and> T a b)) ys"
    and "\<forall>y \<in> set ys. T x y"
  shows "sorted_wrt (\<lambda>a b. key a < key b \<or> (key a = key b \<and> T a b)) (insort_key key x ys)"
  using assms
proof (induction ys)
  case Nil
  then show ?case by simp
next
  case (Cons y ys)
  show ?case
  proof (cases "key x \<le> key y")
    case True
    have "key x < key z \<or> (key x = key z \<and> T x z)" if "z \<in> set (y # ys)" for z
    proof -
      from that Cons.prems(1) have "key y \<le> key z" by auto
      with True have "key x \<le> key z" by simp
      moreover from that Cons.prems(2) have "T x z" by auto
      ultimately show ?thesis by auto
    qed
    with True Cons.prems(1) show ?thesis by simp
  next
    case False
    from Cons have ih: "sorted_wrt (\<lambda>a b. key a < key b \<or> (key a = key b \<and> T a b))
        (insort_key key x ys)" by simp
    from False Cons.prems(1) ih show ?thesis by (auto simp: set_insort_key)
  qed
qed

lemma sorted_wrt_sort_key_lex:
  fixes key :: "'a \<Rightarrow> real"
  assumes "sorted_wrt T xs"
  shows "sorted_wrt (\<lambda>a b. key a < key b \<or> (key a = key b \<and> T a b)) (sort_key key xs)"
  using assms
proof (induction xs)
  case Nil
  then show ?case by simp
next
  case (Cons x xs)
  then have "sorted_wrt (\<lambda>a b. key a < key b \<or> (key a = key b \<and> T a b)) (sort_key key xs)"
    and "\<forall>y \<in> set (sort_key key xs). T x y" by simp_all
  then show ?case
    using sorted_wrt_insort_key_lex [of key T "sort_key key xs" x] by (simp add: sort_key_def)
qed

lemma sorted_wrt_enumerate: "sorted_wrt (\<lambda>a b. fst a < fst b) (List.enumerate k vs)"
  by (simp add: sorted_wrt_iff_nth_less nth_enumerate_eq)

lemma py_sorted_rank_order:
  "sorted_wrt (rank_order hib) (py_sorted snd hib (List.enumerate 0 vs))"
proof (cases hib)
  case False
  from sorted_wrt_sort_key_lex [OF sorted_wrt_enumerate, of snd 0 vs]
  show ?thesis using False
    by (simp add: py_sorted_def rank_order_def [abs_def] ranks_before_def)
next
  case True
  have "sorted_wrt (\<lambda>a b. fst b < fst a) (rev (List.enumerate 0 vs))"
    using sorted_wrt_enumerate [of 0 vs] by (simp add: sorted_wrt_rev)
  from sorted_wrt_sort_key_lex [OF this, of snd]
  have "sorted_wrt (\<lambda>a b. snd b < snd a \<or> (snd b = snd a \<and> fst a < fst b))
      (rev (sort_key snd (rev (List.enumerate 0 vs))))"
    by (simp add: sorted_wrt_rev)
  moreover have "(\<lambda>a b. snd b < snd a \<or> (snd b = snd a \<and> fst a < fst b)) = rank_order True"
    by (auto simp: rank_order_def [abs_def] ranks_before_def fun_eq_iff)
  ultimately show ?thesis using True by (simp add: py_sorted_def)
qed

lemma set_py_sorted: "set (py_sorted key r xs) = set xs"
  by (simp add: py_sorted_def)

lemma length_py_sorted: "length (py_sorted key r xs) = length xs"
  by (simp add: py_sorted_def)

lemma distinct_py_sorted: "distinct (py_sorted key r xs) = distinct xs"
  by (simp add: py_sorted_def)

lemma length_fold_rank:
  "length (fold (\<lambda>(rank, (idx, _)) r. r[idx := rank]) ps r) = length r"
  by (induction ps arbitrary: r) (auto simp: split_def)

lemma fold_rank_other:
  "i \<notin> fst ` set ys \<Longrightarrow>
     fold (\<lambda>(rank, (idx, _)) r. r[idx := rank]) (List.enumerate k ys) r ! i = r ! i"
  by (induction ys arbitrary: k r) (auto simp: split_def)

lemma fold_rank_nth:
  assumes "distinct (map fst ys)" and "\<forall>y \<in> set ys. fst y < length r" and "p < length ys"
  shows "fold (\<lambda>(rank, (idx, _)) r. r[idx := rank]) (List.enumerate k ys) r ! fst (ys ! p)
           = k + p"
  using assms
proof (induction ys arbitrary: k r p)
  case Nil
  then show ?case by simp
next
  case (Cons y ys)
  show ?case
  proof (cases p)
    case 0
    from Cons.prems(1) have "fst y \<notin> fst ` set ys" by simp
    from fold_rank_other [OF this, of "Suc k" "r[fst y := k]"] Cons.prems(2) 0
    show ?thesis by (simp add: split_def)
  next
    case (Suc p')
    from Cons.prems have "distinct (map fst ys)"
      and "\<forall>z \<in> set ys. fst z < length (r[fst y := k])" and "p' < length ys"
      using Suc by simp_all
    from Cons.IH [OF this, of "Suc k"] Suc show ?thesis by (simp add: split_def)
  qed
qed

lemma ranking_position:
  assumes "c = compare_metric name snapshots extractor hib"
    and "vs = map extractor snapshots"
    and "ys = py_sorted snd hib (List.enumerate 0 vs)"
  shows "length ys = length snapshots"
    and "p < length snapshots \<Longrightarrow>
           fst (ys ! p) < length snapshots \<and> snd (ys ! p) = vs ! fst (ys ! p)
           \<and> ranking c ! fst (ys ! p) = Suc p"
    and "i < length snapshots \<Longrightarrow> \<exists>p < length snapshots. ys ! p = (i, vs ! i)"
proof -
  let ?n = "length snapshots"
  have len: "length ys = ?n" by (simp add: assms length_py_sorted)
  have set_ys: "set ys = set (List.enumerate 0 vs)" by (simp add: assms(3) set_py_sorted)
  have dist_ys: "distinct ys" by (simp add: assms(3) distinct_py_sorted distinct_enumerate)
  have "inj_on fst (set (List.enumerate 0 vs))"
    by (auto simp: inj_on_def in_set_enumerate_eq)
  with dist_ys set_ys have dist_fst: "distinct (map fst ys)" by (simp add: distinct_map)
  have bound: "\<forall>y \<in> set ys. fst y < length (replicate ?n (0::nat))"
    by (auto simp: set_ys in_set_enumerate_eq assms(2))
  have rk: "ranking c =
      fold (\<lambda>(rank, (idx, _)) r. r[idx := rank]) (List.enumerate 1 ys) (replicate ?n 0)"
    by (simp add: assms compare_metric_def Let_def)
  show "length ys = ?n" by (rule len)
  show "fst (ys ! p) < ?n \<and> snd (ys ! p) = vs ! fst (ys ! p) \<and> ranking c ! fst (ys ! p) = Suc p"
    if "p < ?n"
  proof -
    from that len have "ys ! p \<in> set (List.enumerate 0 vs)"
      using set_ys nth_mem by metis
    then have a: "fst (ys ! p) < ?n" "snd (ys ! p) = vs ! fst (ys ! p)"
      by (auto simp: in_set_enumerate_eq assms(2))
    from that len have "p < length ys" by simp
    from fold_rank_nth [OF dist_fst bound this, of 1] have "ranking c ! fst (ys ! p) = Suc p"
      by (simp add: rk)
    with a show ?thesis by simp
  qed
  show "\<exists>p < ?n. ys ! p = (i, vs ! i)" if "i < ?n"
  proof -
    from that have "(i, vs ! i) \<in> set ys"
      by (simp add: set_ys in_set_enumerate_eq assms(2))
    then obtain p where "p < length ys" "ys ! p = (i, vs ! i)"
      by (auto simp: in_set_conv_nth)
    with len show ?thesis by auto
  qed
qed

lemma rank_order_asym: "rank_order hib a b \<Longrightarrow> \<not> rank_order hib b a"
  by (auto simp: rank_order_def ranks_before_def split: if_splits)

lemma ranking_order:
  assumes "c = compare_metric name snapshots extractor hib"
    and "vs = map extractor snapshots"
    and "i < length snapshots" and "j < length snapshots"
  shows "ranking c ! i < ranking c ! j \<longleftrightarrow>
           ranks_before hib (vs ! i) (vs ! j) \<or> (vs ! i = vs ! j \<and> i < j)"
proof -
  define ys where "ys = py_sorted snd hib (List.enumerate 0 vs)"
  note pos = ranking_position [OF assms(1,2) ys_def]
  from pos(3) [OF assms(3)] obtain p where p: "p < length snapshots" "ys ! p = (i, vs ! i)"
    by blast
  from pos(3) [OF assms(4)] obtain q where q: "q < length snapshots" "ys ! q = (j, vs ! j)"
    by blast
  from pos(2) [OF p(1)] p(2) have ri: "ranking c ! i = Suc p" by simp
  from pos(2) [OF q(1)] q(2) have rj: "ranking c ! j = Suc q" by simp
  have srt: "sorted_wrt (rank_order hib) ys"
    unfolding ys_def by (rule py_sorted_rank_order)
  have fwd: "rank_order hib (ys ! a) (ys ! b)" if "a < b" "b < length snapshots" for a b
    using srt that pos(1) by (simp add: sorted_wrt_iff_nth_less)
  have rhs: "(ranks_before hib (vs ! i) (vs ! j) \<or> (vs ! i = vs ! j \<and> i < j))
      \<longleftrightarrow> rank_order hib (i, vs ! i) (j, vs ! j)"
    by (simp add: rank_order_def)
  show ?thesis
  proof
    assume "ranking c ! i < ranking c ! j"
    with ri rj have "p < q" by simp
    from fwd [OF this q(1)] p(2) q(2) show
      "ranks_before hib (vs ! i) (vs ! j) \<or> (vs ! i = vs ! j \<and> i < j)"
      by (simp add: rhs)
  next
    assume "ranks_before hib (vs ! i) (vs ! j) \<or> (vs ! i = vs ! j \<and> i < j)"
    then have r: "rank_order hib (i, vs ! i) (j, vs ! j)" by (simp add: rhs)
    have "\<not> q < p"
    proof
      assume "q < p"
      from fwd [OF this p(1)] p(2) q(2) have "rank_order hib (j, vs ! j) (i, vs ! i)" by simp
      with rank_order_asym [OF r] show False by simp
    qed
    moreover have "p \<noteq> q"
    proof
      assume "p = q"
      with p(2) q(2) have "(i, vs ! i) = (j, vs ! j)" by simp
      with r rank_order_asym [OF r] show False by simp
    qed
    ultimately have "p < q" by simp
    with ri rj show "ranking c ! i < ranking c ! j" by simp
  qed
qed

lemma ranking_is_permutation:
  assumes "c = compare_metric name snapshots extractor hib"
  shows "length (ranking c) = length snapshots"
    and "set (ranking c) = {1..length snapshots}"
proof -
  define vs where "vs = map extractor snapshots"
  define ys where "ys = py_sorted snd hib (List.enumerate 0 vs)"
  note pos = ranking_position [OF assms vs_def ys_def]
  show len: "length (ranking c) = length snapshots"
    by (simp add: assms compare_metric_def Let_def length_fold_rank)
  show "set (ranking c) = {1..length snapshots}"
  proof (intro equalityI subsetI)
    fix r assume "r \<in> set (ranking c)"
    then obtain i where i: "i < length snapshots" "ranking c ! i = r"
      using len by (auto simp: in_set_conv_nth)
    from pos(3) [OF i(1)] obtain p where p: "p < length snapshots" "ys ! p = (i, vs ! i)"
      by blast
    from pos(2) [OF p(1)] p(2) i(2) have "r = Suc p" by simp
    with p(1) show "r \<in> {1..length snapshots}" by simp
  next
    fix r assume "r \<in> {1..length snapshots}"
    then obtain p where p: "r = Suc p" "p < length snapshots"
      by (cases r) auto
    from pos(2) [OF p(2)] have "fst (ys ! p) < length (ranking c)"
      and "ranking c ! fst (ys ! p) = r" using len p(1) by simp_all
    then show "r \<in> set (ranking c)" using nth_mem by metis
  qed
qed

lemma py_max_Max: "xs \<noteq> [] \<Longrightarrow> py_max xs = Inr (Max (set xs))"
proof (cases xs)
  case Nil
  assume "xs \<noteq> []" with Nil show ?thesis by simp
next
  case (Cons x rest)
  have "(\<lambda>item best :: real. if item > best then item else best) = max"
    by (auto simp: fun_eq_iff max_def)
  with Cons Max.set_eq_fold [of x rest] show ?thesis by (simp add: py_max_def)
qed

lemma py_min_Min: "xs \<noteq> [] \<Longrightarrow> py_min xs = Inr (Min (set xs))"
proof (cases xs)
  case Nil
  assume "xs \<noteq> []" with Nil show ?thesis by simp
next
  case (Cons x rest)
  have "(\<lambda>item best :: real. if item < best then item else best) = min"
    by (auto simp: fun_eq_iff min_def)
  with Cons Min.set_eq_fold [of x rest] show ?thesis by (simp add: py_min_def)
qed

lemma py_index_first:
  "v \<in> set xs \<Longrightarrow>
     \<exists>i < length xs. py_index xs v = Inr i \<and> xs ! i = v \<and> (\<forall>j < i. xs ! j \<noteq> v)"
proof (induction xs)
  case Nil
  then show ?case by simp
next
  case (Cons x xs)
  show ?case
  proof (cases "x = v")
    case True
    then show ?thesis by simp
  next
    case False
    with Cons obtain i where i: "i < length xs" "py_index xs v = Inr i" "xs ! i = v"
      "\<forall>j < i. xs ! j \<noteq> v" by auto
    have "\<forall>j < Suc i. (x # xs) ! j \<noteq> v"
    proof (intro allI impI)
      fix j assume "j < Suc i"
      with i(4) False show "(x # xs) ! j \<noteq> v" by (cases j) auto
    qed
    with False i show ?thesis by (intro exI [of _ "Suc i"]) simp
  qed
qed

lemma extremes_of_compare_metric:
  assumes "c = compare_metric name snapshots extractor hib"
    and "vs = map extractor snapshots"
    and "snapshots \<noteq> []"
  shows "\<exists>i < length snapshots. best_performer c = Inr (company_name (snapshots ! i))
           \<and> vs ! i = Max (set vs) \<and> (\<forall>j < i. vs ! j \<noteq> Max (set vs))"
    and "\<exists>i < length snapshots. worst_performer c = Inr (company_name (snapshots ! i))
           \<and> vs ! i = Min (set vs) \<and> (\<forall>j < i. vs ! j \<noteq> Min (set vs))"
proof -
  have v: "PeerComparison.values c = vs" "companies c = map company_name snapshots"
    by (simp_all add: assms compare_metric_def Let_def)
  from assms have ne: "vs \<noteq> []" and len: "length vs = length snapshots" by simp_all
  from ne have "Max (set vs) \<in> set vs" by (intro Max_in) simp_all
  from py_index_first [OF this] obtain i where i: "i < length vs"
    "py_index vs (Max (set vs)) = Inr i" "vs ! i = Max (set vs)"
    "\<forall>j < i. vs ! j \<noteq> Max (set vs)" by blast
  with ne len have "best_performer c = Inr (company_name (snapshots ! i))"
    by (simp add: best_performer_def v py_max_Max)
  with i len show "\<exists>i < length snapshots. best_performer c = Inr (company_name (snapshots ! i))
           \<and> vs ! i = Max (set vs) \<and> (\<forall>j < i. vs ! j \<noteq> Max (set vs))" by auto
  from ne have "Min (set vs) \<in> set vs" by (intro Min_in) simp_all
  from py_index_first [OF this] obtain k where k: "k < length vs"
    "py_index vs (Min (set vs)) = Inr k" "vs ! k = Min (set vs)"
    "\<forall>j < k. vs ! j \<noteq> Min (set vs)" by blast
  with ne len have "worst_performer c = Inr (company_name (snapshots ! k))"
    by (simp add: worst_performer_def v py_min_Min)
  with k len show "\<exists>i < length snapshots. worst_performer c = Inr (company_name (snapshots ! i))
           \<and> vs ! i = Min (set vs) \<and> (\<forall>j < i. vs ! j \<noteq> Min (set vs))" by auto
qed

lemma ranking_example:
  assumes "map extractor [a, b, d] = [10, 30, 20]"
  shows "ranking (compare_metric name [a, b, d] extractor True) = [3, 1, 2]"
proof -
  have e: "List.enumerate 0 [10, 30, 20 :: real] = [(0, 10), (1, 30), (2, 20)]"
    by (simp add: enumerate_eq_zip upt_rec)
  have s: "py_sorted snd True [(0 :: nat, 10 :: real), (1, 30), (2, 20)]
      = [(1, 30), (2, 20), (0, 10)]"
    by (simp add: py_sorted_def sort_key_def)
  have n: "List.enumerate 1 [(1 :: nat, 30 :: real), (2, 20), (0, 10)]
      = [(1, (1, 30)), (2, (2, 20)), (3, (0, 10))]"
    by (simp add: enumerate_eq_zip upt_rec)
  have "ranking (compare_metric name [a, b, d] extractor True) =
      fold (\<lambda>(rank, (idx, _)) r. r[idx := rank])
        (List.enumerate 1 (py_sorted snd True (List.enumerate 0 [10, 30, 20 :: real])))
        (replicate (length [10, 30, 20 :: real]) 0)"
    unfolding assms [symmetric] by (simp add: compare_metric_def Let_def)
  also have "\<dots> = [3, 1, 2]"
    unfolding e s n by (simp add: numeral_3_eq_3)
  finally show ?thesis .
qed

lemma performer_cong:
  assumes "PeerComparison.values c = PeerComparison.values c'"
    and "companies c = companies c'"
  shows "best_performer c = best_performer c'" and "worst_performer c = worst_performer c'"
  unfolding best_performer_def worst_performer_def assms by (rule refl)+

lemma tie_example_values:
  "map operating_income [peer_a, tsmc, peer_b] = [200000, 300000, 200000]"
  "map company_name [peer_a, tsmc, peer_b] = [''Peer A'', ''TSMC'', ''Peer B'']"
  by (simp_all add: tsmc_def peer_a_def peer_b_def)

text \<open>
  C8. For a comparison over \<open>n\<close> companies the ranking uses each of the ranks 1..n
  once; company \<open>i\<close> is ranked ahead of company \<open>j\<close> exactly when its value comes first
  in the order (greater when higher is better, smaller otherwise) or the two values are
  equal and \<open>i\<close> comes first in the input. Values [10, 30, 20] with higher-is-better give
  ranks [3, 1, 2]. The best and the worst performer are the companies at the first
  position of the maximum and of the minimum of the values, whatever the flag.
\<close>

theorem peer_ranking_and_extremes:
  assumes "c = compare_metric name snapshots extractor higher_is_better"
    and "vs = map extractor snapshots"
    and "n = length snapshots"
  shows "PeerComparison.values c = vs \<and> companies c = map company_name snapshots
       \<and> length (ranking c) = n \<and> set (ranking c) = {1..n}
       \<and> (\<forall>i < n. \<forall>j < n.
            ranking c ! i < ranking c ! j \<longleftrightarrow>
              ranks_before higher_is_better (vs ! i) (vs ! j) \<or> (vs ! i = vs ! j \<and> i < j))
       \<and> (map extractor [a, b, d] = [10, 30, 20] \<longrightarrow>
            ranking (compare_metric name [a, b, d] extractor True) = [3, 1, 2])
       \<and> (snapshots \<noteq> [] \<longrightarrow>
            (\<exists>i < n. best_performer c = Inr (company_name (snapshots ! i))
                \<and> vs ! i = Max (set vs) \<and> (\<forall>j < i. vs ! j \<noteq> Max (set vs)))
            \<and> (\<exists>i < n. worst_performer c = Inr (company_name (snapshots ! i))
                \<and> vs ! i = Min (set vs) \<and> (\<forall>j < i. vs ! j \<noteq> Min (set vs))))
       \<and> best_performer (compare_metric name snapshots extractor True)
           = best_performer (compare_metric name snapshots extractor False)
       \<and> worst_performer (compare_metric name snapshots extractor True)
           = worst_performer (compare_metric name snapshots extractor False)"
proof -
  have v: "PeerComparison.values c = vs \<and> companies c = map company_name snapshots"
    by (simp add: assms compare_metric_def Let_def)
  have p: "length (ranking c) = n \<and> set (ranking c) = {1..n}"
    using ranking_is_permutation [OF assms(1)] assms(3) by simp
  have ord: "\<forall>i < n. \<forall>j < n.
            ranking c ! i < ranking c ! j \<longleftrightarrow>
              ranks_before higher_is_better (vs ! i) (vs ! j) \<or> (vs ! i = vs ! j \<and> i < j)"
    using ranking_order [OF assms(1,2)] assms(3) by blast
  have ex: "map extractor [a, b, d] = [10, 30, 20] \<longrightarrow>
            ranking (compare_metric name [a, b, d] extractor True) = [3, 1, 2]"
    by (rule impI) (rule ranking_example)
  have ext: "snapshots \<noteq> [] \<longrightarrow>
            (\<exists>i < n. best_performer c = Inr (company_name (snapshots ! i))
                \<and> vs ! i = Max (set vs) \<and> (\<forall>j < i. vs ! j \<noteq> Max (set vs)))
            \<and> (\<exists>i < n. worst_performer c = Inr (company_name (snapshots ! i))
                \<and> vs ! i = Min (set vs) \<and> (\<forall>j < i. vs ! j \<noteq> Min (set vs)))"
    using extremes_of_compare_metric [OF assms(1,2)] assms(3) by blast
  have flag: "best_performer (compare_metric name snapshots extractor True)
           = best_performer (compare_metric name snapshots extractor False)"
    "worst_performer (compare_metric name snapshots extractor True)
           = worst_performer (compare_metric name snapshots extractor False)"
    by (rule performer_cong; simp add: compare_metric_def Let_def)+
  from v p ord ex ext flag show ?thesis by blast
qed

theorem peer_ranking_and_extremes_witness:
  "[peer_a, tsmc, peer_b] \<noteq> []
   \<and> map operating_income [peer_a, tsmc, peer_b] = [200000, 300000, 200000]
   \<and> set (ranking (compare_metric ''Operating income'' [peer_a, tsmc, peer_b]
            operating_income True)) = {1..3}
   \<and> ranking (compare_metric ''Operating income'' [peer_a, tsmc, peer_b]
        operating_income True) ! 1
     < ranking (compare_metric ''Operating income'' [peer_a, tsmc, peer_b]
        operating_income True) ! 0
   \<and> ranking (compare_metric ''Operating income'' [peer_a, tsmc, peer_b]
        operating_income True) ! 0
     < ranking (compare_metric ''Operating income'' [peer_a, tsmc, peer_b]
        operating_income True) ! 2
   \<and> best_performer (compare_metric ''Operating income'' [peer_a, tsmc, peer_b]
        operating_income True) = Inr ''TSMC''
   \<and> worst_performer (compare_metric ''Operating income'' [peer_a, tsmc, peer_b]
        operating_income True) = Inr ''Peer A''"
proof -
  define c where "c = compare_metric ''Operating income'' [peer_a, tsmc, peer_b]
        operating_income True"
  define vs where "vs = map operating_income [peer_a, tsmc, peer_b]"
  have n: "(3::nat) = length [peer_a, tsmc, peer_b]" by simp
  have vals: "vs = [200000, 300000, 200000]"
    unfolding vs_def by (rule tie_example_values(1))
  have mx: "Max (set vs) = 300000" "Min (set vs) = 200000" by (simp_all add: vals)
  note th = peer_ranking_and_extremes [OF c_def vs_def n]
  from th have s: "set (ranking c) = {1..3}" by blast
  from th have ord: "\<forall>i < 3. \<forall>j < 3.
       ranking c ! i < ranking c ! j \<longleftrightarrow>
         ranks_before True (vs ! i) (vs ! j) \<or> (vs ! i = vs ! j \<and> i < j)" by blast
  from ord [rule_format, of 1 0] have o1: "ranking c ! 1 < ranking c ! 0"
    by (simp add: vals ranks_before_def)
  from ord [rule_format, of 0 2] have o2: "ranking c ! 0 < ranking c ! 2"
    by (simp add: vals ranks_before_def)
  from th obtain i where i: "i < 3"
    "best_performer c = Inr (company_name ([peer_a, tsmc, peer_b] ! i))"
    "vs ! i = Max (set vs)" by blast
  from i(1) have "i = 0 \<or> i = 1 \<or> i = 2" by auto
  with i(3) have "i = 1" by (auto simp: vals)
  with i(2) have b: "best_performer c = Inr ''TSMC''" by (simp add: tsmc_def)
  from th obtain k where k: "k < 3"
    "worst_performer c = Inr (company_name ([peer_a, tsmc, peer_b] ! k))"
    "vs ! k = Min (set vs)" "\<forall>j < k. vs ! j \<noteq> Min (set vs)" by blast
  from k(1) have "k = 0 \<or> k = 1 \<or> k = 2" by auto
  with k(3,4) have "k = 0" by (auto simp: vals)
  with k(2) have w: "worst_performer c = Inr ''Peer A''" by (simp add: peer_a_def)
  have ne: "[peer_a, tsmc, peer_b] \<noteq> []" by simp
  from ne tie_example_values(1) s o1 o2 b w show ?thesis unfolding c_def by blast
qed

end
